theory Spec2Isabelle
  imports Main "HOL-Library.AList" "HOL-Library.Char_ord" "HOL-Library.List_Lexorder"
begin

section \<open>Values\<close>

text \<open>
  JSON documents as Python's \<^verbatim>\<open>json\<close> module sees them. A Python dict with string keys is
  an association list with distinct keys; \<^verbatim>\<open>d[k] = v\<close> is \<open>AList.update\<close>.
\<close>

datatype json =
    JNull
  | JBool bool
  | JInt int
  | JStr string
  | JList "json list"
  | JDict "(string \<times> json) list"

type_synonym dict = "(string \<times> json) list"

datatype error =
    IOError string
  | ValueError string
  | AttributeError string
  | IndexError
  | TransportError nat
  | StorageError string

text \<open>\<^verbatim>\<open>p.update(params)\<close>: every item of the argument is stored into \<open>p\<close>, in order.\<close>

definition dict_update :: "dict \<Rightarrow> dict \<Rightarrow> dict" where
  "dict_update p q = fold (\<lambda>(k, v). AList.update k v) q p"

text \<open>
  \<^verbatim>\<open>json.dumps(p, indent=4, sort_keys=True)\<close>: the persisted blob is kept as the JSON object
  it denotes, its members in the order of their keys; the layout of the text is not modelled.
\<close>

definition json_dumps_sorted :: "dict \<Rightarrow> dict" where
  "json_dumps_sorted p = sort_key fst p"

text \<open>\<^verbatim>\<open>str(n)\<close> of a non-negative integer: its decimal digits.\<close>

definition digit_char :: "nat \<Rightarrow> char" where
  "digit_char d = char_of (48 + d)"

fun str_nat :: "nat \<Rightarrow> string" where
  "str_nat n = (if n < 10 then [digit_char n] else str_nat (n div 10) @ [digit_char (n mod 10)])"

declare str_nat.simps [simp del]

text \<open>\<^verbatim>\<open>str(obj.id)\<close>: the identifier of an object that was never persisted is \<^verbatim>\<open>None\<close>.\<close>

definition str_id :: "nat option \<Rightarrow> string" where
  "str_id i = (case i of None \<Rightarrow> ''None'' | Some n \<Rightarrow> str_nat n)"

definition json_id :: "nat option \<Rightarrow> json" where
  "json_id i = (case i of None \<Rightarrow> JNull | Some n \<Rightarrow> JInt (int n))"

section \<open>Storage\<close>

text \<open>
  A table of the metadata database is a list of optional rows: the row at position \<open>i\<close> has
  the primary key \<open>i\<close>, a deleted row leaves \<open>None\<close> behind, and a new row is appended, so that
  keys are unique and never reused. An object of the ORM is a pair of its primary key
  (\<open>None\<close> until it is persisted) and its columns.
\<close>

type_synonym 'a table = "'a option list"
type_synonym 'a obj = "nat option \<times> 'a"

fun first_from :: "nat \<Rightarrow> ('a \<Rightarrow> bool) \<Rightarrow> 'a table \<Rightarrow> (nat \<times> 'a) option" where
  "first_from n P [] = None"
| "first_from n P (None # t) = first_from (Suc n) P t"
| "first_from n P (Some r # t) = (if P r then Some (n, r) else first_from (Suc n) P t)"

text \<open>\<^verbatim>\<open>session.query(X).filter_by(...).first()\<close>\<close>

definition query_first :: "('a \<Rightarrow> bool) \<Rightarrow> 'a table \<Rightarrow> 'a obj option" where
  "query_first P t = map_option (\<lambda>(i, r). (Some i, r)) (first_from 0 P t)"

text \<open>
  \<^verbatim>\<open>session.add(obj); session.commit()\<close>: a persistent object updates its row, a new one is
  inserted and receives its key. \<^verbatim>\<open>session.merge(obj); session.commit()\<close> is modelled alike.
\<close>

definition session_add :: "'a obj \<Rightarrow> 'a table \<Rightarrow> 'a obj \<times> 'a table" where
  "session_add obj t =
     (case fst obj of
        Some i \<Rightarrow> (obj, t[i := Some (snd obj)])
      | None \<Rightarrow> ((Some (length t), snd obj), t @ [Some (snd obj)]))"

text \<open>\<^verbatim>\<open>session.delete(obj); session.commit()\<close>\<close>

definition session_delete :: "'a obj \<Rightarrow> 'a table \<Rightarrow> 'a table" where
  "session_delete obj t = (case fst obj of Some i \<Rightarrow> t[i := None] | None \<Rightarrow> t)"

text \<open>The number of rows of a table that satisfy a condition.\<close>

definition count_where :: "('a \<Rightarrow> bool) \<Rightarrow> 'a table \<Rightarrow> nat" where
  "count_where P t = length (filter (\<lambda>x. case x of None \<Rightarrow> False | Some r \<Rightarrow> P r) t)"

record database =
  database_name :: string
  sqlalchemy_uri :: "string option"

record elasticsearch_cluster =
  cluster_name :: string
  urls :: "string list"

record sqla_table =
  table_name :: string
  tbl_main_dttm_col :: "string option"
  tbl_is_featured :: bool
  tbl_database :: "nat option"
  tbl_description :: "string option"

record elasticsearch_datasource =
  datasource_name :: string
  esd_main_dttm_col :: "string option"
  esd_cluster :: "nat option"
  index_name :: "string option"
  esd_description :: "string option"
  esd_is_featured :: bool

record slice =
  slice_name :: string
  viz_type :: string
  datasource_type :: string
  slc_table :: "nat option"
  slc_elasticsearch_datasource :: "nat option"
  params :: dict

record dashboard =
  dashboard_title :: "string option"
  slug :: "string option"
  position_json :: "dict list"
  dash_slices :: "nat list"

record css_template =
  template_name :: string
  css :: string

section \<open>The world outside the program\<close>

text \<open>
  A data frame of pandas is an association list from column labels to columns. The calendar
  arithmetic of \<^verbatim>\<open>pd.to_datetime\<close> is not modelled: \<open>ToDatetime unit c\<close> stands for the
  date/time value that \<^verbatim>\<open>pd.to_datetime(c, unit=unit)\<close> yields.
\<close>

datatype cell = Val json | ToDatetime "string option" cell

type_synonym frame = "(string \<times> cell list) list"

datatype sqltype = SqlString nat | SqlFloat | SqlDateTime | SqlDate

type_synonym dtype = "(string \<times> sqltype) list"

text \<open>
  What the run reads from its environment: the configuration, the packaged files as the
  parsing libraries return them (or fail on them), the clock and the random numbers, and the
  faults of the two bulk stores: the HTTP status with which the search cluster answers a
  request when it does not answer regularly, and the failure of a table write.
\<close>

record env =
  SQLALCHEMY_DATABASE_URI :: "string option"
  ROW_LIMIT :: json
  gzip_json_loads :: "string \<Rightarrow> error + json list"
  pd_read_json :: "string \<Rightarrow> error + frame"
  pd_read_csv :: "string \<Rightarrow> error + frame"
  readfile :: "string \<Rightarrow> error + string"
  today :: json
  randint :: "nat \<Rightarrow> int"
  es_delete_fault :: "nat option"
  es_bulk_fault :: "nat option"
  to_sql_fault :: "error option"

type_synonym es_state = "(string \<times> (string \<times> json) list) list"
type_synonym sql_state = "(string \<times> dtype \<times> frame) list"

text \<open>
  The state the program works on: the tables of the metadata database, the relational store
  behind \<^verbatim>\<open>db.engine\<close> and the indices of the search cluster.
\<close>

record world =
  dbs :: "database table"
  clusters :: "elasticsearch_cluster table"
  tables :: "sqla_table table"
  es_datasources :: "elasticsearch_datasource table"
  slices :: "slice table"
  dashboards :: "dashboard table"
  css_templates :: "css_template table"
  engine :: sql_state
  es_indices :: es_state

text \<open>
  \<^verbatim>\<open>es.indices.delete(index=..., ignore=...)\<close>: the cluster answers 404 for an index it
  does not have; the client raises on every status outside 2xx that is not to be ignored.
\<close>

definition indices_delete :: "env \<Rightarrow> string \<Rightarrow> nat list \<Rightarrow> es_state \<Rightarrow> error + es_state" where
  "indices_delete e index ignore es =
     (let status = (case es_delete_fault e of
                      Some st \<Rightarrow> st
                    | None \<Rightarrow> if index \<in> fst ` set es then 200 else 404)
      in if 200 \<le> status \<and> status < 300 then Inr (AList.delete index es)
         else if status \<in> set ignore then Inr es
         else Inl (TransportError status))"

text \<open>\<^verbatim>\<open>es.bulk(index=..., doc_type=..., body=...)\<close> with one index action per row.\<close>

definition es_bulk :: "env \<Rightarrow> string \<Rightarrow> string \<Rightarrow> json list \<Rightarrow> es_state \<Rightarrow> error + es_state" where
  "es_bulk e index doc_type data es =
     (case es_bulk_fault e of
        Some st \<Rightarrow> Inl (TransportError st)
      | None \<Rightarrow>
          Inr (AList.update index
                 ((case map_of es index of None \<Rightarrow> [] | Some docs \<Rightarrow> docs) @ map (Pair doc_type) data) es))"

text \<open>\<^verbatim>\<open>pdf.to_sql(table_name, db.engine, if_exists='replace', chunksize=500, dtype=dtype, index=False)\<close>\<close>

definition to_sql :: "env \<Rightarrow> string \<Rightarrow> dtype \<Rightarrow> frame \<Rightarrow> sql_state \<Rightarrow> error + sql_state" where
  "to_sql e tname dtype pdf eng =
     (case to_sql_fault e of
        Some err \<Rightarrow> Inl err
      | None \<Rightarrow> Inr (AList.update tname (dtype, pdf) eng))"

text \<open>\<^verbatim>\<open>pdf.c\<close> and \<^verbatim>\<open>pdf.c = col\<close> for a column label \<open>c\<close>.\<close>

definition get_column :: "string \<Rightarrow> frame \<Rightarrow> error + cell list" where
  "get_column c pdf = (case map_of pdf c of None \<Rightarrow> Inl (AttributeError c) | Some col \<Rightarrow> Inr col)"

definition set_column :: "string \<Rightarrow> cell list \<Rightarrow> frame \<Rightarrow> frame" where
  "set_column c col pdf = AList.update c col pdf"

definition to_datetime :: "string option \<Rightarrow> cell list \<Rightarrow> cell list" where
  "to_datetime unit col = map (ToDatetime unit) col"

text \<open>\<^verbatim>\<open>[col.replace('.', '_') for col in pdf.columns]\<close>\<close>

definition rename_columns :: "frame \<Rightarrow> frame" where
  "rename_columns pdf =
     map (\<lambda>(col, vs). (map (\<lambda>ch. if ch = CHR ''.'' then CHR ''_'' else ch) col, vs)) pdf"

section \<open>Connection references\<close>

text \<open>
  Modelled from the spec: the classes of \<^verbatim>\<open>caravel.models\<close> are not part of the sources. A
  new object has no key and empty columns but those its constructor is given; a relational
  dataset has the type tag \<^verbatim>\<open>table\<close>, a search-cluster one \<^verbatim>\<open>elasticsearch\<close>, and the name
  of a dataset is its table or datasource name.
\<close>

definition DB :: "string \<Rightarrow> database obj" where
  "DB name = (None, \<lparr>database_name = name, sqlalchemy_uri = None\<rparr>)"

definition ElasticsearchCluster :: "string \<Rightarrow> elasticsearch_cluster obj" where
  "ElasticsearchCluster name = (None, \<lparr>cluster_name = name, urls = []\<rparr>)"

definition TBL :: "string \<Rightarrow> sqla_table obj" where
  "TBL name = (None, \<lparr>table_name = name, tbl_main_dttm_col = None, tbl_is_featured = False,
                       tbl_database = None, tbl_description = None\<rparr>)"

definition ElasticsearchDatasource :: "string \<Rightarrow> elasticsearch_datasource obj" where
  "ElasticsearchDatasource name =
     (None, \<lparr>datasource_name = name, esd_main_dttm_col = None, esd_cluster = None,
             index_name = None, esd_description = None, esd_is_featured = False\<rparr>)"

definition Dash :: "dashboard obj" where
  "Dash = (None, \<lparr>dashboard_title = None, slug = None, position_json = [], dash_slices = []\<rparr>)"

definition CSS :: "string \<Rightarrow> css_template obj" where
  "CSS name = (None, \<lparr>template_name = name, css = ''''\<rparr>)"

datatype datasource = SqlaTable "sqla_table obj" | EsDatasource "elasticsearch_datasource obj"

fun ds_type :: "datasource \<Rightarrow> string" where
  "ds_type (SqlaTable t) = ''table''"
| "ds_type (EsDatasource d) = ''elasticsearch''"

fun ds_id :: "datasource \<Rightarrow> nat option" where
  "ds_id (SqlaTable t) = fst t"
| "ds_id (EsDatasource d) = fst d"

fun ds_name :: "datasource \<Rightarrow> string" where
  "ds_name (SqlaTable t) = table_name (snd t)"
| "ds_name (EsDatasource d) = datasource_name (snd d)"

definition get_or_create_db :: "env \<Rightarrow> world \<Rightarrow> database obj \<times> world" where
  "get_or_create_db e w =
     (let dbobj = (case query_first (\<lambda>d. database_name d = ''main'') (dbs w) of
                     Some d \<Rightarrow> d
                   | None \<Rightarrow> DB ''main'');
          dbobj = apsnd (\<lambda>d. d\<lparr>sqlalchemy_uri := SQLALCHEMY_DATABASE_URI e\<rparr>) dbobj;
          (dbobj, t) = session_add dbobj (dbs w)
      in (dbobj, w\<lparr>dbs := t\<rparr>))"

definition get_or_create_elasticsearch_cluster ::
  "string list \<Rightarrow> world \<Rightarrow> elasticsearch_cluster obj \<times> world" where
  "get_or_create_elasticsearch_cluster us w =
     (let clusterobj = (case query_first (\<lambda>c. cluster_name c = ''ElasticSearch examples'') (clusters w) of
                          Some c \<Rightarrow> c
                        | None \<Rightarrow> ElasticsearchCluster ''ElasticSearch examples'');
          clusterobj = apsnd (\<lambda>c. c\<lparr>urls := us\<rparr>) clusterobj;
          (clusterobj, t) = session_add clusterobj (clusters w)
      in (clusterobj, w\<lparr>clusters := t\<rparr>))"

section \<open>The data importer\<close>

text \<open>The date coercion of the relational path, by table name.\<close>

definition coerce_dates :: "string \<Rightarrow> frame \<Rightarrow> error + frame" where
  "coerce_dates tname pdf =
     (if tname = ''birth_names'' then
        (case get_column ''ds'' pdf of
           Inl err \<Rightarrow> Inl err
         | Inr col \<Rightarrow> Inr (set_column ''ds'' (to_datetime (Some ''ms'') col) pdf))
      else if tname = ''wb_health_population'' then
        (case get_column ''year'' pdf of
           Inl err \<Rightarrow> Inl err
         | Inr col \<Rightarrow> Inr (set_column ''year'' (to_datetime None col) pdf))
      else if tname = ''random_time_series'' then
        (case get_column ''ds'' pdf of
           Inl err \<Rightarrow> Inl err
         | Inr col \<Rightarrow> Inr (set_column ''ds'' (to_datetime (Some ''s'') col) pdf))
      else Inr pdf)"

text \<open>
  The dataset record of the search-cluster path. The refresh of fields and metrics belongs to
  the metadata layer and leaves the modelled tables alone.
\<close>

definition es_datasource_ref ::
  "string \<Rightarrow> string \<Rightarrow> string \<Rightarrow> elasticsearch_cluster obj \<Rightarrow> world \<Rightarrow> datasource \<times> world" where
  "es_datasource_ref nm tname description es_cluster w =
     (let ds = (case query_first (\<lambda>d. datasource_name d = nm) (es_datasources w) of
                  Some d \<Rightarrow> d
                | None \<Rightarrow> ElasticsearchDatasource nm);
          ds = (if tname = ''birth_names'' then apsnd (\<lambda>d. d\<lparr>esd_main_dttm_col := Some ''ds''\<rparr>) ds
                else if tname = ''wb_health_population''
                  then apsnd (\<lambda>d. d\<lparr>esd_main_dttm_col := Some ''year''\<rparr>) ds
                else ds);
          ds = apsnd (\<lambda>d. d\<lparr>esd_cluster := fst es_cluster\<rparr>) ds;
          ds = apsnd (\<lambda>d. d\<lparr>index_name := Some nm\<rparr>) ds;
          ds = apsnd (\<lambda>d. d\<lparr>esd_description := Some description\<rparr>) ds;
          ds = apsnd (\<lambda>d. d\<lparr>esd_is_featured := True\<rparr>) ds;
          (ds, t) = session_add ds (es_datasources w)
      in (EsDatasource ds, w\<lparr>es_datasources := t\<rparr>))"

text \<open>The dataset record of the relational path.\<close>

definition table_ref :: "env \<Rightarrow> string \<Rightarrow> string \<Rightarrow> world \<Rightarrow> datasource \<times> world" where
  "table_ref e tname description w =
     (let ds = (case query_first (\<lambda>t. table_name t = tname) (tables w) of
                  Some t \<Rightarrow> t
                | None \<Rightarrow> TBL tname);
          ds = apsnd (\<lambda>t. t\<lparr>tbl_is_featured := True\<rparr>) ds;
          ds = (if tname = ''birth_names'' then apsnd (\<lambda>t. t\<lparr>tbl_main_dttm_col := Some ''ds''\<rparr>) ds
                else if tname = ''wb_health_population''
                  then apsnd (\<lambda>t. t\<lparr>tbl_main_dttm_col := Some ''year''\<rparr>) ds
                else if tname = ''random_time_series''
                  then apsnd (\<lambda>t. t\<lparr>tbl_main_dttm_col := Some ''ds'', tbl_is_featured := False\<rparr>) ds
                else ds);
          (dbobj, w) = get_or_create_db e w;
          ds = apsnd (\<lambda>t. t\<lparr>tbl_database := fst dbobj\<rparr>) ds;
          ds = apsnd (\<lambda>t. t\<lparr>tbl_description := Some description\<rparr>) ds;
          (ds, t) = session_add ds (tables w)
      in (SqlaTable ds, w\<lparr>tables := t\<rparr>))"

text \<open>The columns that the relational path leaves in the dataset record, in one step.\<close>

definition table_columns :: "string \<Rightarrow> string \<Rightarrow> nat option \<Rightarrow> sqla_table \<Rightarrow> sqla_table" where
  "table_columns tname description dbid t =
     t\<lparr>tbl_main_dttm_col :=
         (if tname = ''birth_names'' then Some ''ds''
          else if tname = ''wb_health_population'' then Some ''year''
          else if tname = ''random_time_series'' then Some ''ds''
          else tbl_main_dttm_col t),
       tbl_is_featured := (tname \<noteq> ''random_time_series''),
       tbl_database := dbid, tbl_description := Some description\<rparr>"

definition import_data ::
  "env \<Rightarrow> string \<Rightarrow> string \<Rightarrow> string \<Rightarrow> dtype \<Rightarrow> elasticsearch_cluster obj option \<Rightarrow> world
     \<Rightarrow> error + datasource \<times> world" where
  "import_data e file_name tname description dtype es_cluster w =
     (case es_cluster of
        Some cluster \<Rightarrow>
          (let nm = ''example-'' @ tname in
           case gzip_json_loads e file_name of
             Inl err \<Rightarrow> Inl err
           | Inr data \<Rightarrow>
               (case indices_delete e nm [404] (es_indices w) of
                  Inl err \<Rightarrow> Inl err
                | Inr es \<Rightarrow>
                    (case es_bulk e nm tname data es of
                       Inl err \<Rightarrow> Inl err
                     | Inr es \<Rightarrow>
                         Inr (es_datasource_ref nm tname description cluster (w\<lparr>es_indices := es\<rparr>)))))
      | None \<Rightarrow>
          (case pd_read_json e file_name of
             Inl err \<Rightarrow> Inl err
           | Inr pdf \<Rightarrow>
               (case coerce_dates tname (rename_columns pdf) of
                  Inl err \<Rightarrow> Inl err
                | Inr pdf \<Rightarrow>
                    (case to_sql e tname dtype pdf (engine w) of
                       Inl err \<Rightarrow> Inl err
                     | Inr eng \<Rightarrow> Inr (table_ref e tname description (w\<lparr>engine := eng\<rparr>))))))"

section \<open>Slices\<close>

text \<open>Deleting a slice takes it out of the membership of every dashboard as well.\<close>

definition delete_slice :: "slice obj \<Rightarrow> world \<Rightarrow> world" where
  "delete_slice obj w =
     w\<lparr>slices := session_delete obj (slices w),
       dashboards := map (map_option (\<lambda>d. d\<lparr>dash_slices := filter (\<lambda>i. Some i \<noteq> fst obj) (dash_slices d)\<rparr>))
                         (dashboards w)\<rparr>"

definition slice_params :: "string \<Rightarrow> string \<Rightarrow> datasource \<Rightarrow> dict \<Rightarrow> dict \<Rightarrow> dict" where
  "slice_params sname vtype datasource defaults prms =
     (let p = defaults;
          p = AList.update ''slice_name'' (JStr sname) p;
          p = AList.update ''viz_type'' (JStr vtype) p;
          p = AList.update ''datasource_type'' (JStr (ds_type datasource)) p;
          p = AList.update ''datasource_id'' (json_id (ds_id datasource)) p;
          p = AList.update ''datasource_name'' (JStr (ds_name datasource)) p
      in dict_update p prms)"

definition get_or_create_slice ::
  "string \<Rightarrow> string \<Rightarrow> datasource \<Rightarrow> dict \<Rightarrow> dict \<Rightarrow> world \<Rightarrow> slice obj \<times> world" where
  "get_or_create_slice sname vtype datasource defaults prms w =
     (let is_es = (ds_type datasource = ''elasticsearch'');
          sname = (if is_es then sname @ '' (ES)'' else sname);
          elasticsearch_datasource = (if is_es then ds_id datasource else None);
          table = (if is_es then None else ds_id datasource);
          p = slice_params sname vtype datasource defaults prms;
          w = (case query_first (\<lambda>s. slice_name s = sname) (slices w) of
                 Some obj \<Rightarrow> delete_slice obj w
               | None \<Rightarrow> w);
          slc = (None, \<lparr>slice_name = sname, viz_type = vtype,
                        datasource_type = ds_type datasource, slc_table = table,
                        slc_elasticsearch_datasource = elasticsearch_datasource,
                        params = json_dumps_sorted p\<rparr>);
          (slc, t) = session_add slc (slices w)
      in (slc, w\<lparr>slices := t\<rparr>))"


section \<open>The literal configuration of the loaders\<close>

text \<open>
  The slices of a loader are listed as the triples of name, visualisation type and override
  parameters that its calls of \<^verbatim>\<open>get_or_create_slice\<close> are given, in the order of the calls;
  a layout is the parsed position list.
\<close>

definition energy_dtype :: "dtype" where
  \<open>energy_dtype =
     [(''source'', SqlString 255), (''target'', SqlString 255), (''value'', SqlFloat)]\<close>

definition energy_slices :: "(string \<times> string \<times> dict) list" where
  \<open>energy_slices =
     [(''Energy Sankey'', ''sankey'',
       [(''collapsed_fieldsets'', JStr ''''),
        (''flt_col_0'', JStr ''source''),
        (''flt_eq_0'', JStr ''''),
        (''flt_op_0'', JStr ''in''),
        (''groupby'', JList [JStr ''source'', JStr ''target'']),
        (''having'', JStr ''''),
        (''metric'', JStr ''sum__value''),
        (''row_limit'', JStr ''5000''),
        (''slice_id'', JStr ''''),
        (''where'', JStr '''')]),
      (''Energy Force Layout'', ''directed_force'',
       [(''charge'', JStr ''-500''),
        (''collapsed_fieldsets'', JStr ''''),
        (''flt_col_0'', JStr ''source''),
        (''flt_eq_0'', JStr ''''),
        (''flt_op_0'', JStr ''in''),
        (''groupby'', JList [JStr ''source'', JStr ''target'']),
        (''having'', JStr ''''),
        (''link_length'', JStr ''200''),
        (''metric'', JStr ''sum__value''),
        (''row_limit'', JStr ''5000''),
        (''where'', JStr '''')]),
      (''Heatmap'', ''heatmap'',
       [(''all_columns_x'', JStr ''source''),
        (''all_columns_y'', JStr ''target''),
        (''canvas_image_rendering'', JStr ''pixelated''),
        (''collapsed_fieldsets'', JStr ''''),
        (''flt_col_0'', JStr ''source''),
        (''flt_eq_0'', JStr ''''),
        (''flt_op_0'', JStr ''in''),
        (''having'', JStr ''''),
        (''linear_color_scheme'', JStr ''blue_white_yellow''),
        (''metric'', JStr ''sum__value''),
        (''normalize_across'', JStr ''heatmap''),
        (''where'', JStr ''''),
        (''xscale_interval'', JStr ''1''),
        (''yscale_interval'', JStr ''1'')])]\<close>

definition world_bank_dtype :: "dtype" where
  \<open>world_bank_dtype =
     [(''year'', SqlDateTime), (''country_code'', SqlString 3), (''country_name'', SqlString 255), (''region'', SqlString 255)]\<close>

definition world_bank_defaults :: "env \<Rightarrow> dict" where
  \<open>world_bank_defaults e =
     [(''compare_lag'', JStr ''10''),
      (''compare_suffix'', JStr ''o10Y''),
      (''limit'', JStr ''25''),
      (''granularity'', JStr ''year''),
      (''groupby'', JList []),
      (''metric'', JStr ''sum__SP_POP_TOTL''),
      (''metrics'', JList [JStr ''sum__SP_POP_TOTL'']),
      (''row_limit'', ROW_LIMIT e),
      (''since'', JStr ''2014-01-01''),
      (''until'', JStr ''2014-01-01''),
      (''where'', JStr ''''),
      (''markup_type'', JStr ''markdown''),
      (''country_fieldtype'', JStr ''cca3''),
      (''secondary_metric'', JStr ''sum__SP_POP_TOTL''),
      (''entity'', JStr ''country_code''),
      (''show_bubbles'', JStr ''y'')]\<close>

definition world_bank_slices :: "(string \<times> string \<times> dict) list" where
  \<open>world_bank_slices =
     [(''Region Filter'', ''filter_box'',
       [(''groupby'', JList [JStr ''region'', JStr ''country_name''])]),
      (''World's Population'', ''big_number'',
       [(''since'', JStr ''2000''),
        (''compare_lag'', JStr ''10''),
        (''metric'', JStr ''sum__SP_POP_TOTL''),
        (''compare_suffix'', JStr ''over 10Y'')]),
      (''Most Populated Countries'', ''table'',
       [(''metrics'', JList [JStr ''sum__SP_POP_TOTL'']),
        (''groupby'', JList [JStr ''country_name''])]),
      (''Growth Rate'', ''line'',
       [(''since'', JStr ''1960-01-01''),
        (''metrics'', JList [JStr ''sum__SP_POP_TOTL'']),
        (''num_period_compare'', JStr ''10''),
        (''groupby'', JList [JStr ''country_name''])]),
      (''% Rural'', ''world_map'',
       [(''metric'', JStr ''sum__SP_RUR_TOTL_ZS''),
        (''num_period_compare'', JStr ''10'')]),
      (''Life Expexctancy VS Rural %'', ''bubble'',
       [(''since'', JStr ''2011-01-01''),
        (''until'', JStr ''2011-01-01''),
        (''series'', JStr ''region''),
        (''limit'', JStr ''0''),
        (''entity'', JStr ''country_name''),
        (''x'', JStr ''sum__SP_RUR_TOTL_ZS''),
        (''y'', JStr ''sum__SP_DYN_LE00_IN''),
        (''size'', JStr ''sum__SP_POP_TOTL''),
        (''max_bubble_size'', JStr ''50''),
        (''flt_col_1'', JStr ''country_code''),
        (''flt_op_1'', JStr ''not in''),
        (''flt_eq_1'', JStr ''TCA,MNP,DMA,MHL,MCO,SXM,CYM,TUV,IMY,KNA,ASM,ADO,AMA,PLW''),
        (''num_period_compare'', JStr ''10'')]),
      (''Rural Breakdown'', ''sunburst'',
       [(''groupby'', JList [JStr ''region'', JStr ''country_name'']),
        (''secondary_metric'', JStr ''sum__SP_RUR_TOTL''),
        (''since'', JStr ''2011-01-01''),
        (''until'', JStr ''2011-01-01'')]),
      (''World's Pop Growth'', ''area'',
       [(''since'', JStr ''1960-01-01''),
        (''until'', JStr ''now''),
        (''groupby'', JList [JStr ''region''])]),
      (''Box plot'', ''box_plot'',
       [(''since'', JStr ''1960-01-01''),
        (''until'', JStr ''now''),
        (''whisker_options'', JStr ''Tukey''),
        (''groupby'', JList [JStr ''region''])]),
      (''Treemap'', ''treemap'',
       [(''since'', JStr ''1960-01-01''),
        (''until'', JStr ''now''),
        (''metrics'', JList [JStr ''sum__SP_POP_TOTL'']),
        (''groupby'', JList [JStr ''region'', JStr ''country_code''])]),
      (''Parallel Coordinates'', ''para'',
       [(''since'', JStr ''2011-01-01''),
        (''until'', JStr ''2011-01-01''),
        (''limit'', JInt 100),
        (''metrics'', JList [JStr ''sum__SP_POP_TOTL'', JStr ''sum__SP_RUR_TOTL_ZS'', JStr ''sum__SH_DYN_AIDS'']),
        (''secondary_metric'', JStr ''sum__SP_POP_TOTL''),
        (''series'', JList [JStr ''country_name''])])]\<close>

definition world_bank_positions :: "dict list" where
  \<open>world_bank_positions =
     [[(''size_y'', JInt 2), (''size_x'', JInt 3), (''col'', JInt 10), (''slice_id'', JStr ''22''), (''row'', JInt 1)],
      [(''size_y'', JInt 3), (''size_x'', JInt 3), (''col'', JInt 10), (''slice_id'', JStr ''23''), (''row'', JInt 3)],
      [(''size_y'', JInt 8), (''size_x'', JInt 3), (''col'', JInt 1), (''slice_id'', JStr ''24''), (''row'', JInt 1)],
      [(''size_y'', JInt 3), (''size_x'', JInt 6), (''col'', JInt 4), (''slice_id'', JStr ''25''), (''row'', JInt 6)],
      [(''size_y'', JInt 5), (''size_x'', JInt 6), (''col'', JInt 4), (''slice_id'', JStr ''26''), (''row'', JInt 1)],
      [(''size_y'', JInt 4), (''size_x'', JInt 6), (''col'', JInt 7), (''slice_id'', JStr ''27''), (''row'', JInt 9)],
      [(''size_y'', JInt 3), (''size_x'', JInt 3), (''col'', JInt 10), (''slice_id'', JStr ''28''), (''row'', JInt 6)],
      [(''size_y'', JInt 4), (''size_x'', JInt 6), (''col'', JInt 1), (''slice_id'', JStr ''29''), (''row'', JInt 9)],
      [(''size_y'', JInt 4), (''size_x'', JInt 5), (''col'', JInt 8), (''slice_id'', JStr ''30''), (''row'', JInt 13)],
      [(''size_y'', JInt 4), (''size_x'', JInt 7), (''col'', JInt 1), (''slice_id'', JStr ''31''), (''row'', JInt 13)]]\<close>

definition birth_names_dtype :: "dtype" where
  \<open>birth_names_dtype =
     [(''ds'', SqlDateTime), (''gender'', SqlString 16), (''state'', SqlString 10), (''name'', SqlString 255)]\<close>

definition birth_names_defaults :: "env \<Rightarrow> dict" where
  \<open>birth_names_defaults e =
     [(''compare_lag'', JStr ''10''),
      (''compare_suffix'', JStr ''o10Y''),
      (''flt_op_1'', JStr ''in''),
      (''limit'', JStr ''25''),
      (''granularity'', JStr ''ds''),
      (''groupby'', JList []),
      (''metric'', JStr ''sum__num''),
      (''metrics'', JList [JStr ''sum__num'']),
      (''row_limit'', ROW_LIMIT e),
      (''since'', JStr ''100 years ago''),
      (''until'', JStr ''now''),
      (''where'', JStr ''''),
      (''markup_type'', JStr ''markdown'')]\<close>

definition birth_names_slices :: "(string \<times> string \<times> dict) list" where
  \<open>birth_names_slices =
     [(''Girls'', ''table'',
       [(''groupby'', JList [JStr ''name'']),
        (''flt_col_1'', JStr ''gender''),
        (''flt_eq_1'', JStr ''girl''),
        (''row_limit'', JInt 50)]),
      (''Boys'', ''table'',
       [(''groupby'', JList [JStr ''name'']),
        (''flt_col_1'', JStr ''gender''),
        (''flt_eq_1'', JStr ''boy''),
        (''row_limit'', JInt 50)]),
      (''Participants'', ''big_number'',
       [(''granularity'', JStr ''ds''),
        (''compare_lag'', JStr ''5''),
        (''compare_suffix'', JStr ''over 5Y'')]),
      (''Genders'', ''pie'',
       [(''groupby'', JList [JStr ''gender''])]),
      (''Genders by State'', ''dist_bar'',
       [(''flt_eq_1'', JStr ''other''),
        (''metrics'', JList [JStr ''sum__sum_girls'', JStr ''sum__sum_boys'']),
        (''groupby'', JList [JStr ''state'']),
        (''flt_op_1'', JStr ''not in''),
        (''flt_col_1'', JStr ''state'')]),
      (''Trends'', ''line'',
       [(''groupby'', JList [JStr ''name'']),
        (''granularity'', JStr ''ds''),
        (''rich_tooltip'', JStr ''y''),
        (''show_legend'', JStr ''y'')]),
      (''Title'', ''markup'',
       [(''markup_type'', JStr ''html''),
        (''code'', JStr ''<div style="text-align:center">\<newline>    <h1>Birth Names Dashboard</h1>\<newline>    <p>\<newline>        The source dataset came from\<newline>        <a href="https://github.com/hadley/babynames">[here]</a>\<newline>    </p>\<newline>    <img src="http://monblog.system-linux.net/image/tux/baby-tux_overlord59-tux.png">\<newline></div>\<newline>'')]),
      (''Name Cloud'', ''word_cloud'',
       [(''size_from'', JStr ''10''),
        (''series'', JStr ''name''),
        (''size_to'', JStr ''70''),
        (''rotation'', JStr ''square''),
        (''limit'', JStr ''100'')]),
      (''Pivot Table'', ''pivot_table'',
       [(''metrics'', JList [JStr ''sum__num'']),
        (''groupby'', JList [JStr ''name'']),
        (''columns'', JList [JStr ''state''])]),
      (''Number of Girls'', ''big_number_total'',
       [(''granularity'', JStr ''ds''),
        (''flt_col_1'', JStr ''gender''),
        (''flt_eq_1'', JStr ''girl''),
        (''subheader'', JStr ''total female participants'')])]\<close>

definition birth_names_positions :: "dict list" where
  \<open>birth_names_positions =
     [[(''size_y'', JInt 4), (''size_x'', JInt 2), (''col'', JInt 8), (''slice_id'', JStr ''85''), (''row'', JInt 7)],
      [(''size_y'', JInt 4), (''size_x'', JInt 2), (''col'', JInt 10), (''slice_id'', JStr ''86''), (''row'', JInt 7)],
      [(''size_y'', JInt 2), (''size_x'', JInt 2), (''col'', JInt 1), (''slice_id'', JStr ''87''), (''row'', JInt 1)],
      [(''size_y'', JInt 2), (''size_x'', JInt 2), (''col'', JInt 3), (''slice_id'', JStr ''88''), (''row'', JInt 1)],
      [(''size_y'', JInt 3), (''size_x'', JInt 7), (''col'', JInt 5), (''slice_id'', JStr ''89''), (''row'', JInt 4)],
      [(''size_y'', JInt 4), (''size_x'', JInt 7), (''col'', JInt 1), (''slice_id'', JStr ''90''), (''row'', JInt 7)],
      [(''size_y'', JInt 3), (''size_x'', JInt 3), (''col'', JInt 9), (''slice_id'', JStr ''91''), (''row'', JInt 1)],
      [(''size_y'', JInt 3), (''size_x'', JInt 4), (''col'', JInt 5), (''slice_id'', JStr ''92''), (''row'', JInt 1)],
      [(''size_y'', JInt 4), (''size_x'', JInt 4), (''col'', JInt 1), (''slice_id'', JStr ''93''), (''row'', JInt 3)]]\<close>

definition unicode_dtype :: "dtype" where
  \<open>unicode_dtype =
     [(''phrase'', SqlString 500), (''short_phrase'', SqlString 10), (''with_missing'', SqlString 100), (''date'', SqlDate), (''value'', SqlFloat)]\<close>

definition unicode_slices :: "env \<Rightarrow> (string \<times> string \<times> dict) list" where
  \<open>unicode_slices e =
     [(''Unicode Cloud'', ''word_cloud'',
       [(''flt_op_1'', JStr ''in''),
        (''granularity'', JStr ''date''),
        (''groupby'', JList []),
        (''metric'', JStr ''sum__value''),
        (''row_limit'', ROW_LIMIT e),
        (''since'', JStr ''100 years ago''),
        (''until'', JStr ''now''),
        (''where'', JStr ''''),
        (''viz_type'', JStr ''word_cloud''),
        (''size_from'', JStr ''10''),
        (''series'', JStr ''short_phrase''),
        (''size_to'', JStr ''70''),
        (''rotation'', JStr ''square''),
        (''limit'', JStr ''100'')])]\<close>

definition random_time_series_dtype :: "dtype" where
  \<open>random_time_series_dtype =
     [(''ds'', SqlDateTime)]\<close>

definition random_time_series_slices :: "env \<Rightarrow> (string \<times> string \<times> dict) list" where
  \<open>random_time_series_slices e =
     [(''Calendar Heatmap'', ''cal_heatmap'',
       [(''granularity'', JStr ''day''),
        (''row_limit'', ROW_LIMIT e),
        (''since'', JStr ''1 year ago''),
        (''until'', JStr ''now''),
        (''where'', JStr ''''),
        (''domain_granularity'', JStr ''month''),
        (''subdomain_granularity'', JStr ''day'')])]\<close>

definition css_flat :: "string" where
  \<open>css_flat =
     (''.gridster div.widget {\<newline>'' @
      ''    transition: background-color 0.5s ease;\<newline>'' @
      ''    background-color: #FAFAFA;\<newline>'' @
      ''    border: 1px solid #CCC;\<newline>'' @
      ''    box-shadow: none;\<newline>'' @
      ''    border-radius: 0px;\<newline>'' @
      ''}\<newline>'' @
      ''.gridster div.widget:hover {\<newline>'' @
      ''    border: 1px solid #000;\<newline>'' @
      ''    background-color: #EAEAEA;\<newline>'' @
      ''}\<newline>'' @
      ''.navbar {\<newline>'' @
      ''    transition: opacity 0.5s ease;\<newline>'' @
      ''    opacity: 0.05;\<newline>'' @
      ''}\<newline>'' @
      ''.navbar:hover {\<newline>'' @
      ''    opacity: 1;\<newline>'' @
      ''}\<newline>'' @
      ''.chart-header .header{\<newline>'' @
      ''    font-weight: normal;\<newline>'' @
      ''    font-size: 12px;\<newline>'' @
      ''}\<newline>'' @
      ''/*\<newline>'' @
      ''var bnbColors = [\<newline>'' @
      ''    //rausch    hackb      kazan      babu      lima        beach     tirol\<newline>'' @
      ''    '#ff5a5f', '#7b0051', '#007A87', '#00d1c1', '#8ce071', '#ffb400', '#b4a76c',\<newline>'' @
      ''    '#ff8083', '#cc0086', '#00a1b3', '#00ffeb', '#bbedab', '#ffd266', '#cbc29a',\<newline>'' @
      ''    '#ff3339', '#ff1ab1', '#005c66', '#00b3a5', '#55d12e', '#b37e00', '#988b4e',\<newline>'' @
      '' ];\<newline>'' @
      ''*/\<newline>'')\<close>

definition css_courier_black :: "string" where
  \<open>css_courier_black =
     (''.gridster div.widget {\<newline>'' @
      ''    transition: background-color 0.5s ease;\<newline>'' @
      ''    background-color: #EEE;\<newline>'' @
      ''    border: 2px solid #444;\<newline>'' @
      ''    border-radius: 15px;\<newline>'' @
      ''    box-shadow: none;\<newline>'' @
      ''}\<newline>'' @
      ''h2 {\<newline>'' @
      ''    color: white;\<newline>'' @
      ''    font-size: 52px;\<newline>'' @
      ''}\<newline>'' @
      ''.navbar {\<newline>'' @
      ''    box-shadow: none;\<newline>'' @
      ''}\<newline>'' @
      ''.gridster div.widget:hover {\<newline>'' @
      ''    border: 2px solid #000;\<newline>'' @
      ''    background-color: #EAEAEA;\<newline>'' @
      ''}\<newline>'' @
      ''.navbar {\<newline>'' @
      ''    transition: opacity 0.5s ease;\<newline>'' @
      ''    opacity: 0.05;\<newline>'' @
      ''}\<newline>'' @
      ''.navbar:hover {\<newline>'' @
      ''    opacity: 1;\<newline>'' @
      ''}\<newline>'' @
      ''.chart-header .header{\<newline>'' @
      ''    font-weight: normal;\<newline>'' @
      ''    font-size: 12px;\<newline>'' @
      ''}\<newline>'' @
      ''.nvd3 text {\<newline>'' @
      ''    font-size: 12px;\<newline>'' @
      ''    font-family: inherit;\<newline>'' @
      ''}\<newline>'' @
      ''body{\<newline>'' @
      ''    background: #000;\<newline>'' @
      ''    font-family: Courier, Monaco, monospace;;\<newline>'' @
      ''}\<newline>'' @
      ''/*\<newline>'' @
      ''var bnbColors = [\<newline>'' @
      ''    //rausch    hackb      kazan      babu      lima        beach     tirol\<newline>'' @
      ''    '#ff5a5f', '#7b0051', '#007A87', '#00d1c1', '#8ce071', '#ffb400', '#b4a76c',\<newline>'' @
      ''    '#ff8083', '#cc0086', '#00a1b3', '#00ffeb', '#bbedab', '#ffd266', '#cbc29a',\<newline>'' @
      ''    '#ff3339', '#ff1ab1', '#005c66', '#00b3a5', '#55d12e', '#b37e00', '#988b4e',\<newline>'' @
      '' ];\<newline>'' @
      ''*/\<newline>'')\<close>

section \<open>The loaders\<close>

text \<open>The calls of \<^verbatim>\<open>get_or_create_slice\<close> of a loader, one after the other.\<close>

fun create_slices ::
  "datasource \<Rightarrow> dict \<Rightarrow> (string \<times> string \<times> dict) list \<Rightarrow> world \<Rightarrow> slice obj list \<times> world" where
  "create_slices ds defaults [] w = ([], w)"
| "create_slices ds defaults ((sname, vtype, prms) # specs) w =
     (let (slc, w) = get_or_create_slice sname vtype ds defaults prms w;
          (slcs, w) = create_slices ds defaults specs w
      in (slc # slcs, w))"

text \<open>
  \<^verbatim>\<open>for i, pos in enumerate(l): pos['slice_id'] = str(slices[i].id)\<close>: a position without
  a slice at its index raises.
\<close>

fun set_slice_ids :: "dict list \<Rightarrow> slice obj list \<Rightarrow> error + dict list" where
  "set_slice_ids [] slcs = Inr []"
| "set_slice_ids (pos # l) [] = Inl IndexError"
| "set_slice_ids (pos # l) (slc # slcs) =
     (case set_slice_ids l slcs of
        Inl err \<Rightarrow> Inl err
      | Inr l \<Rightarrow> Inr (AList.update ''slice_id'' (JStr (str_id (fst slc))) pos # l))"

text \<open>
  The end of the three dashboard loaders: title, layout, slug and membership are assigned and
  the dashboard is merged. The membership is kept as the keys of the member slcs.
\<close>

definition save_dashboard ::
  "dashboard obj \<Rightarrow> string \<Rightarrow> dict list \<Rightarrow> string \<Rightarrow> slice obj list \<Rightarrow> world \<Rightarrow> world" where
  "save_dashboard dash title l slg members w =
     (let dash = apsnd (\<lambda>d. d\<lparr>dashboard_title := Some title\<rparr>) dash;
          dash = apsnd (\<lambda>d. d\<lparr>position_json := l\<rparr>) dash;
          dash = apsnd (\<lambda>d. d\<lparr>slug := Some slg\<rparr>) dash;
          dash = apsnd (\<lambda>d. d\<lparr>dash_slices := List.map_filter fst members\<rparr>) dash;
          (dash, t) = session_add dash (dashboards w)
      in w\<lparr>dashboards := t\<rparr>)"

definition load_energy :: "env \<Rightarrow> elasticsearch_cluster obj option \<Rightarrow> world \<Rightarrow> error + world" where
  "load_energy e es_cluster w =
     (case import_data e ''energy.json.gz'' ''energy_usage'' ''Energy consumption'' energy_dtype
             es_cluster w of
        Inl err \<Rightarrow> Inl err
      | Inr (ds, w) \<Rightarrow> Inr (snd (create_slices ds [] energy_slices w)))"

definition load_world_bank_health_n_pop ::
  "env \<Rightarrow> elasticsearch_cluster obj option \<Rightarrow> world \<Rightarrow> error + world" where
  "load_world_bank_health_n_pop e es_cluster w =
     (case readfile e ''countries.md'' of
        Inl err \<Rightarrow> Inl err
      | Inr description \<Rightarrow>
          (case import_data e ''countries.json.gz'' ''wb_health_population'' description
                  world_bank_dtype es_cluster w of
             Inl err \<Rightarrow> Inl err
           | Inr (ds, w) \<Rightarrow>
               (let (slcs, w) = create_slices ds (world_bank_defaults e) world_bank_slices w;
                    dash = (case query_first (\<lambda>d. slug d = Some ''world_health'') (dashboards w) of
                              Some d \<Rightarrow> d
                            | None \<Rightarrow> Dash)
                in case set_slice_ids world_bank_positions slcs of
                     Inl err \<Rightarrow> Inl err
                   | Inr l \<Rightarrow>
                       Inr (save_dashboard dash (''World'' @ [CHR 0x27] @ ''s Bank Data'') l
                              ''world_health'' (butlast slcs) w))))"

definition load_css_templates :: "elasticsearch_cluster obj option \<Rightarrow> world \<Rightarrow> world" where
  "load_css_templates es_cluster w =
     (let obj = (case query_first (\<lambda>c. template_name c = ''Flat'') (css_templates w) of
                   Some c \<Rightarrow> c
                 | None \<Rightarrow> CSS ''Flat'');
          obj = apsnd (\<lambda>c. c\<lparr>css := css_flat\<rparr>) obj;
          w = w\<lparr>css_templates := snd (session_add obj (css_templates w))\<rparr>;
          obj = (case query_first (\<lambda>c. template_name c = ''Courier Black'') (css_templates w) of
                   Some c \<Rightarrow> c
                 | None \<Rightarrow> CSS ''Courier Black'');
          obj = apsnd (\<lambda>c. c\<lparr>css := css_courier_black\<rparr>) obj
      in w\<lparr>css_templates := snd (session_add obj (css_templates w))\<rparr>)"

definition load_birth_names :: "env \<Rightarrow> elasticsearch_cluster obj option \<Rightarrow> world \<Rightarrow> error + world" where
  "load_birth_names e es_cluster w =
     (case import_data e ''birth_names.json.gz'' ''birth_names'' [] birth_names_dtype es_cluster w of
        Inl err \<Rightarrow> Inl err
      | Inr (ds, w) \<Rightarrow>
          (let (slcs, w) = create_slices ds (birth_names_defaults e) birth_names_slices w;
               dash = (case query_first (\<lambda>d. dashboard_title d = Some ''Births'') (dashboards w) of
                         Some d \<Rightarrow> d
                       | None \<Rightarrow> Dash)
           in case set_slice_ids birth_names_positions slcs of
                Inl err \<Rightarrow> Inl err
              | Inr l \<Rightarrow> Inr (save_dashboard dash ''Births'' l ''births'' (butlast slcs) w)))"

text \<open>\<^verbatim>\<open>len(df)\<close>, and the two generated columns of the unicode test data.\<close>

definition frame_len :: "frame \<Rightarrow> nat" where
  "frame_len df = (case df of [] \<Rightarrow> 0 | (c, col) # _ \<Rightarrow> length col)"

definition unicode_frame :: "env \<Rightarrow> frame \<Rightarrow> frame" where
  "unicode_frame e df =
     (let df = set_column ''date'' (replicate (frame_len df) (Val (today e))) df
      in set_column ''value'' (map (\<lambda>k. Val (JInt (randint e k))) [0..<frame_len df]) df)"

definition load_unicode_test_data ::
  "env \<Rightarrow> elasticsearch_cluster obj option \<Rightarrow> world \<Rightarrow> error + world" where
  "load_unicode_test_data e es_cluster w =
     (case pd_read_csv e ''unicode_utf8_unixnl_test.csv'' of
        Inl err \<Rightarrow> Inl err
      | Inr df \<Rightarrow>
          (case to_sql e ''unicode_test'' unicode_dtype (unicode_frame e df) (engine w) of
             Inl err \<Rightarrow> Inl err
           | Inr eng \<Rightarrow>
               (let w = w\<lparr>engine := eng\<rparr>;
                    obj = (case query_first (\<lambda>t. table_name t = ''unicode_test'') (tables w) of
                             Some t \<Rightarrow> t
                           | None \<Rightarrow> TBL ''unicode_test'');
                    obj = apsnd (\<lambda>t. t\<lparr>tbl_main_dttm_col := Some ''date''\<rparr>) obj;
                    (dbobj, w) = get_or_create_db e w;
                    obj = apsnd (\<lambda>t. t\<lparr>tbl_database := fst dbobj\<rparr>) obj;
                    obj = apsnd (\<lambda>t. t\<lparr>tbl_is_featured := False\<rparr>) obj;
                    (obj, t) = session_add obj (tables w);
                    w = w\<lparr>tables := t\<rparr>;
                    ds = SqlaTable obj;
                    (slcs, w) = create_slices ds [] (unicode_slices e) w;
                    dash = (case query_first (\<lambda>d. dashboard_title d = Some ''Unicode Test'') (dashboards w) of
                              Some d \<Rightarrow> d
                            | None \<Rightarrow> Dash);
                    l = map (\<lambda>slc. [(''size_y'', JInt 4), (''size_x'', JInt 4), (''col'', JInt 1),
                                     (''row'', JInt 1), (''slice_id'', json_id (fst slc))]) slcs
                in Inr (save_dashboard dash ''Unicode Test'' l ''unicode-test'' slcs w))))"

definition load_random_time_series_data ::
  "env \<Rightarrow> elasticsearch_cluster obj option \<Rightarrow> world \<Rightarrow> error + world" where
  "load_random_time_series_data e es_cluster w =
     (case import_data e ''random_time_series.json.gz'' ''random_time_series'' ''Random time series''
             random_time_series_dtype es_cluster w of
        Inl err \<Rightarrow> Inl err
      | Inr (ds, w) \<Rightarrow> Inr (snd (create_slices ds [] (random_time_series_slices e) w)))"

section \<open>Notions used in the statements\<close>

text \<open>The name under which \<^verbatim>\<open>get_or_create_slice\<close> looks a slice up and persists it.\<close>

definition slice_key :: "datasource \<Rightarrow> string \<Rightarrow> string" where
  "slice_key datasource sname =
     (if ds_type datasource = ''elasticsearch'' then sname @ '' (ES)'' else sname)"

text \<open>The row that \<^verbatim>\<open>get_or_create_slice\<close> persists for a name, a type and its parameters.\<close>

definition slice_row :: "datasource \<Rightarrow> dict \<Rightarrow> string \<times> string \<times> dict \<Rightarrow> slice" where
  "slice_row datasource defaults spec =
     (case spec of (sname, vtype, prms) \<Rightarrow>
        \<lparr>slice_name = slice_key datasource sname, viz_type = vtype,
         datasource_type = ds_type datasource,
         slc_table = (if ds_type datasource = ''elasticsearch'' then None else ds_id datasource),
         slc_elasticsearch_datasource =
           (if ds_type datasource = ''elasticsearch'' then ds_id datasource else None),
         params = json_dumps_sorted
                    (slice_params (slice_key datasource sname) vtype datasource defaults prms)\<rparr>)"

text \<open>The lookup keys of a dashboard.\<close>

definition dash_key :: "dashboard \<Rightarrow> string option \<times> string option" where
  "dash_key d = (dashboard_title d, slug d)"

text \<open>A layout slot holds an identifier as its decimal text or as a number.\<close>

definition slot_holds :: "dict \<Rightarrow> nat \<Rightarrow> bool" where
  "slot_holds pos i \<longleftrightarrow>
     map_of pos ''slice_id'' = Some (JStr (str_nat i)) \<or> map_of pos ''slice_id'' = Some (JInt (int i))"

text \<open>The row that a dashboard loader merges.\<close>

definition dashboard_row :: "string \<Rightarrow> dict list \<Rightarrow> string \<Rightarrow> slice obj list \<Rightarrow> dashboard" where
  "dashboard_row title l slg members =
     \<lparr>dashboard_title = Some title, slug = Some slg, position_json = l,
      dash_slices = List.map_filter fst members\<rparr>"

text \<open>The number of layout slots of a dashboard that hold an identifier.\<close>

definition slots_holding :: "dashboard \<Rightarrow> nat \<Rightarrow> nat" where
  "slots_holding d m = length (filter (\<lambda>pos. slot_holds pos m) (position_json d))"

text \<open>
  The layout of a dashboard has at least as many slots as the dashboard has members, and
  every member is held by exactly one slot.
\<close>

definition layout_covers_members :: "dashboard \<Rightarrow> bool" where
  "layout_covers_members d \<longleftrightarrow>
     length (dash_slices d) \<le> length (position_json d) \<and>
     (\<forall>m \<in> set (dash_slices d). slots_holding d m = 1)"

text \<open>The dashboards as the three dashboard loaders look them up.\<close>

definition world_health_dashboard :: "world \<Rightarrow> dashboard obj option" where
  "world_health_dashboard w = query_first (\<lambda>d. slug d = Some ''world_health'') (dashboards w)"

definition births_dashboard :: "world \<Rightarrow> dashboard obj option" where
  "births_dashboard w = query_first (\<lambda>d. dashboard_title d = Some ''Births'') (dashboards w)"

definition unicode_dashboard :: "world \<Rightarrow> dashboard obj option" where
  "unicode_dashboard w = query_first (\<lambda>d. dashboard_title d = Some ''Unicode Test'') (dashboards w)"

text \<open>The name of the slice persisted at a key, if there is one.\<close>

definition slice_name_at :: "world \<Rightarrow> nat \<Rightarrow> string option" where
  "slice_name_at w i = (if i < length (slices w) then map_option slice_name (slices w ! i) else None)"

text \<open>The columns that the unicode loader assigns to its dataset record.\<close>

definition unicode_table_columns :: "nat option \<Rightarrow> sqla_table \<Rightarrow> sqla_table" where
  "unicode_table_columns dbid t =
     t\<lparr>tbl_main_dttm_col := Some ''date'', tbl_database := dbid, tbl_is_featured := False\<rparr>"


text \<open>For a dashboard that a lookup has found: its members, and the slots holding an identifier.\<close>

definition found_members :: "dashboard obj option \<Rightarrow> nat list option" where
  "found_members d = map_option (\<lambda>x. dash_slices (snd x)) d"

definition found_slots_holding :: "dashboard obj option \<Rightarrow> nat \<Rightarrow> nat option" where
  "found_slots_holding d m = map_option (\<lambda>x. slots_holding (snd x) m) d"

text \<open>
  The persisted slices, those persisted under a name, and their number; the names under which
  a loader persists the slices of a list, by the path taken.
\<close>

definition live_slices :: "world \<Rightarrow> slice list" where
  "live_slices w = List.map_filter (\<lambda>x. x) (slices w)"

definition slices_named :: "world \<Rightarrow> string \<Rightarrow> slice list" where
  "slices_named w n = filter (\<lambda>s. slice_name s = n) (live_slices w)"

definition slice_count :: "world \<Rightarrow> string \<Rightarrow> nat" where
  "slice_count w n = count_where (\<lambda>s. slice_name s = n) (slices w)"

definition slice_names ::
  "elasticsearch_cluster obj option \<Rightarrow> (string \<times> string \<times> dict) list \<Rightarrow> string list" where
  "slice_names es_cluster specs =
     map (\<lambda>spec. if es_cluster = None then fst spec else fst spec @ '' (ES)'') specs"

section \<open>Sample data\<close>

definition empty_world :: world where
  "empty_world = \<lparr>dbs = [], clusters = [], tables = [], es_datasources = [], slices = [],
                   dashboards = [], css_templates = [], engine = [], es_indices = []\<rparr>"

definition sample_slice :: "string \<Rightarrow> slice" where
  "sample_slice nm = \<lparr>slice_name = nm, viz_type = ''heatmap'', datasource_type = ''table'',
                       slc_table = Some 0, slc_elasticsearch_datasource = None, params = []\<rparr>"

definition sample_world :: world where
  "sample_world = empty_world\<lparr>slices := [Some (sample_slice ''Heatmap''), Some (sample_slice ''Heatmap (ES)'')]\<rparr>"

definition sample_es_datasource :: datasource where
  "sample_es_datasource = EsDatasource (Some 0, snd (ElasticsearchDatasource ''example-energy_usage''))"

definition sample_frame :: frame where
  "sample_frame = [(''ds'', [Val (JInt 0), Val (JInt 86400000)]),
                   (''year'', [Val (JStr ''1960''), Val (JStr ''1961'')]),
                   (''num'', [Val (JInt 7), Val (JInt 9)])]"

definition sample_env :: env where
  "sample_env = \<lparr>SQLALCHEMY_DATABASE_URI = Some ''sqlite:////tmp/caravel.db'',
                  ROW_LIMIT = JInt 5000,
                  gzip_json_loads = (\<lambda>f. Inr [JDict [(''ds'', JInt 0), (''num'', JInt 7)]]),
                  pd_read_json = (\<lambda>f. Inr sample_frame),
                  pd_read_csv = (\<lambda>f. Inr [(''phrase'', [Val (JStr ''abc'')])]),
                  readfile = (\<lambda>f. Inr ''Countries''),
                  today = JStr ''2016-05-01'',
                  randint = (\<lambda>k. 42),
                  es_delete_fault = None,
                  es_bulk_fault = None,
                  to_sql_fault = None\<rparr>"

section \<open>Properties of dictionaries\<close>

lemma dict_update_keys: "fst ` set (dict_update p q) = fst ` set p \<union> fst ` set q"
  unfolding dict_update_def
proof (induction q arbitrary: p)
  case Nil
  then show ?case by simp
next
  case (Cons a q)
  obtain k v where a: "a = (k, v)" by (cases a)
  show ?case unfolding a by (simp add: Cons.IH dom_update)
qed

lemma distinct_dict_update: "distinct (map fst p) \<Longrightarrow> distinct (map fst (dict_update p q))"
  unfolding dict_update_def
  by (induction q arbitrary: p) (auto simp: distinct_update)

lemma map_of_dict_update:
  "distinct (map fst q) \<Longrightarrow> map_of (dict_update p q) = map_of p ++ map_of q"
  unfolding dict_update_def
proof (induction q arbitrary: p)
  case Nil
  then show ?case by simp
next
  case (Cons a q)
  obtain k v where a: "a = (k, v)" by (cases a)
  from Cons.prems a have k: "k \<notin> fst ` set q" and d: "distinct (map fst q)" by auto
  have n: "map_of q k = None" using k by (simp add: map_of_eq_None_iff)
  have "map_of (fold (\<lambda>(k, v). AList.update k v) (a # q) p)
          = map_of (fold (\<lambda>(k, v). AList.update k v) q (AList.update k v p))"
    by (simp add: a)
  also have "\<dots> = map_of (AList.update k v p) ++ map_of q"
    by (rule Cons.IH [OF d])
  also have "\<dots> = map_of p ++ map_of (a # q)"
    using n by (auto simp: a map_add_def fun_eq_iff update_conv' split: option.splits)
  finally show ?case .
qed

lemma set_json_dumps_sorted: "set (json_dumps_sorted p) = set p"
  by (simp add: json_dumps_sorted_def)

lemma map_of_json_dumps_sorted:
  "distinct (map fst p) \<Longrightarrow> map_of (json_dumps_sorted p) = map_of p"
proof -
  assume d: "distinct (map fst p)"
  have d': "distinct (map fst (json_dumps_sorted p))"
    using d by (simp add: json_dumps_sorted_def distinct_map inj_on_def) 
  show ?thesis
  proof
    fix k
    show "map_of (json_dumps_sorted p) k = map_of p k"
    proof (cases "map_of p k")
      case None
      then have "k \<notin> fst ` set p" by (simp add: map_of_eq_None_iff)
      then have "map_of (json_dumps_sorted p) k = None"
        by (simp add: map_of_eq_None_iff set_json_dumps_sorted)
      then show ?thesis using None by simp
    next
      case (Some v)
      then have "(k, v) \<in> set (json_dumps_sorted p)"
        by (auto simp: set_json_dumps_sorted dest: map_of_SomeD)
      then show ?thesis using d' Some by simp
    qed
  qed
qed

section \<open>Properties of the storage operations\<close>

lemma first_from_Some:
  "first_from n P t = Some (i, r) \<Longrightarrow> n \<le> i \<and> i - n < length t \<and> t ! (i - n) = Some r \<and> P r"
proof (induction n P t rule: first_from.induct)
  case (1 n P)
  then show ?case by simp
next
  case (2 n P t)
  then have "Suc n \<le> i \<and> i - Suc n < length t \<and> t ! (i - Suc n) = Some r \<and> P r" by simp
  then show ?case by (auto simp: Suc_diff_Suc Suc_le_eq)
next
  case (3 n P x t)
  show ?case
  proof (cases "P x")
    case True
    with 3 show ?thesis by simp
  next
    case False
    with 3 have "Suc n \<le> i \<and> i - Suc n < length t \<and> t ! (i - Suc n) = Some r \<and> P r" by simp
    then show ?thesis by (auto simp: Suc_diff_Suc Suc_le_eq)
  qed
qed

lemma first_from_None: "first_from n P t = None \<longleftrightarrow> count_where P t = 0"
  by (induction n P t rule: first_from.induct) (auto simp: count_where_def)

lemma first_from_update:
  "first_from n P t = Some (i, r) \<Longrightarrow> P r' \<Longrightarrow> first_from n P (t[i - n := Some r']) = Some (i, r')"
proof (induction n P t rule: first_from.induct)
  case (1 n P)
  then show ?case by simp
next
  case (2 n P t)
  then have f: "first_from (Suc n) P t = Some (i, r)" by simp
  from first_from_Some [OF f] have "i - n = Suc (i - Suc n)" by auto
  with 2 f show ?case by simp
next
  case (3 n P x t)
  show ?case
  proof (cases "P x")
    case True
    with 3 show ?thesis by simp
  next
    case False
    with 3 have f: "first_from (Suc n) P t = Some (i, r)" by simp
    from first_from_Some [OF f] have "i - n = Suc (i - Suc n)" by auto
    with 3 f False show ?thesis by simp
  qed
qed

lemma first_from_append:
  "first_from n P t = None \<Longrightarrow> P r \<Longrightarrow> first_from n P (t @ [Some r]) = Some (n + length t, r)"
  by (induction n P t rule: first_from.induct) (auto split: if_splits)

lemma count_where_append:
  "count_where P (t @ [Some r]) = count_where P t + (if P r then 1 else 0)"
  by (simp add: count_where_def)

lemma length_filter_update:
  "i < length xs \<Longrightarrow>
     length (filter Q (xs[i := y])) + (if Q (xs ! i) then 1 else 0)
       = length (filter Q xs) + (if Q y then 1 else 0)"
proof (induction xs arbitrary: i)
  case Nil
  then show ?case by simp
next
  case (Cons x xs)
  then show ?case by (cases i) auto
qed

lemma count_where_update_same:
  assumes "i < length t" and "t ! i = Some r" and "P r = P r'"
  shows "count_where P (t[i := Some r']) = count_where P t"
  using length_filter_update [OF assms(1), of "\<lambda>x. case x of None \<Rightarrow> False | Some r \<Rightarrow> P r" "Some r'"] assms
  by (simp add: count_where_def split: if_splits)

lemma count_where_delete:
  assumes "i < length t" and "t ! i = Some r"
  shows "count_where P (t[i := None]) + (if P r then 1 else 0) = count_where P t"
  using length_filter_update [OF assms(1), of "\<lambda>x. case x of None \<Rightarrow> False | Some r \<Rightarrow> P r" None] assms
  by (simp add: count_where_def split: if_splits)

lemma query_first_Some:
  "query_first P t = Some obj \<Longrightarrow>
     \<exists>i. fst obj = Some i \<and> i < length t \<and> t ! i = Some (snd obj) \<and> P (snd obj)"
  unfolding query_first_def by (auto dest!: first_from_Some)

lemma query_first_None: "query_first P t = None \<longleftrightarrow> count_where P t = 0"
  by (simp add: query_first_def first_from_None)

text \<open>Find or create, set columns without touching the key, persist.\<close>

lemma upsert:
  assumes obj: "obj = (case query_first P t of Some d \<Rightarrow> d | None \<Rightarrow> (None, r0))"
      and r: "P r"
      and add: "session_add (fst obj, r) t = (obj', t')"
  shows "query_first P t' = Some obj'"
    and "snd obj' = r"
    and "\<exists>i. fst obj' = Some i \<and> i < length t' \<and> t' ! i = Some r"
    and "count_where P t' = (if count_where P t = 0 then 1 else count_where P t)"
    and "length t \<le> length t'"
proof -
  have "query_first P t' = Some obj' \<and> snd obj' = r
      \<and> (\<exists>i. fst obj' = Some i \<and> i < length t' \<and> t' ! i = Some r)
      \<and> count_where P t' = (if count_where P t = 0 then 1 else count_where P t)
      \<and> length t \<le> length t'"
  proof (cases "first_from 0 P t")
    case None
    then have q: "query_first P t = None" by (simp add: query_first_def)
    with obj have "fst obj = None" by simp
    with add have o': "obj' = (Some (length t), r)" and t': "t' = t @ [Some r]"
      by (auto simp: session_add_def)
    have c: "count_where P t = 0" using q by (simp add: query_first_None)
    show ?thesis
      using first_from_append [OF None r] r c
      by (simp add: o' t' query_first_def count_where_append)
  next
    case (Some a)
    obtain i x where a: "a = (i, x)" by (cases a)
    from Some a obj have o: "fst obj = Some i" by (simp add: query_first_def)
    with add have o': "obj' = (Some i, r)" and t': "t' = t[i := Some r]"
      by (auto simp: session_add_def)
    from first_from_Some [of 0 P t i x] Some a
    have i: "i < length t" "t ! i = Some x" "P x" by auto
    have c: "count_where P t \<noteq> 0" using Some first_from_None [of 0 P t] by auto
    have "first_from 0 P (t[i - 0 := Some r]) = Some (i, r)"
      using Some a r by (intro first_from_update) auto
    then show ?thesis
      using i r c count_where_update_same [of i t x P r]
      by (simp add: o' t' query_first_def)
  qed
  then show "query_first P t' = Some obj'"
    and "snd obj' = r"
    and "\<exists>i. fst obj' = Some i \<and> i < length t' \<and> t' ! i = Some r"
    and "count_where P t' = (if count_where P t = 0 then 1 else count_where P t)"
    and "length t \<le> length t'"
    by simp_all
qed

section \<open>Slices: parameter blobs and names\<close>


lemma length_delete_slice: "length (slices (delete_slice obj w)) = length (slices w)"
  by (simp add: delete_slice_def session_delete_def split: option.splits)

lemma get_or_create_slice_unfold:
  "get_or_create_slice sname vtype datasource defaults prms w =
     (let nm = (if ds_type datasource = ''elasticsearch'' then sname @ '' (ES)'' else sname);
          w1 = (case query_first (\<lambda>s. slice_name s = nm) (slices w) of
                  Some obj \<Rightarrow> delete_slice obj w
                | None \<Rightarrow> w);
          r = \<lparr>slice_name = nm, viz_type = vtype, datasource_type = ds_type datasource,
               slc_table = (if ds_type datasource = ''elasticsearch'' then None else ds_id datasource),
               slc_elasticsearch_datasource =
                 (if ds_type datasource = ''elasticsearch'' then ds_id datasource else None),
               params = json_dumps_sorted (slice_params nm vtype datasource defaults prms)\<rparr>
      in ((Some (length (slices w)), r), w1\<lparr>slices := slices w1 @ [Some r]\<rparr>))"
  by (simp add: get_or_create_slice_def Let_def session_add_def length_delete_slice
           split: option.splits)

lemma slice_params_keys:
  "fst ` set (json_dumps_sorted (slice_params nm vtype datasource defaults prms)) =
     fst ` set defaults \<union> fst ` set prms \<union>
     {''slice_name'', ''viz_type'', ''datasource_type'', ''datasource_id'', ''datasource_name''}"
  by (simp add: set_json_dumps_sorted slice_params_def Let_def dict_update_keys dom_update)

lemma distinct_slice_params:
  "distinct (map fst defaults) \<Longrightarrow>
     distinct (map fst (slice_params nm vtype datasource defaults prms))"
  by (simp add: slice_params_def Let_def distinct_dict_update distinct_update)

lemma slice_params_override:
  assumes "distinct (map fst defaults)" and "distinct (map fst prms)"
      and "map_of prms k = Some v"
  shows "map_of (json_dumps_sorted (slice_params nm vtype datasource defaults prms)) k = Some v"
proof -
  have "map_of (json_dumps_sorted (slice_params nm vtype datasource defaults prms)) =
        map_of (slice_params nm vtype datasource defaults prms)"
    by (rule map_of_json_dumps_sorted [OF distinct_slice_params [OF assms(1)]])
  moreover have "map_of (slice_params nm vtype datasource defaults prms) k = Some v"
    unfolding slice_params_def Let_def map_of_dict_update [OF assms(2)]
    using assms(3) by simp
  ultimately show ?thesis by simp
qed

lemma get_or_create_slice_params:
  "params (snd (fst (get_or_create_slice sname vtype datasource defaults prms w))) =
     json_dumps_sorted
       (slice_params (if ds_type datasource = ''elasticsearch'' then sname @ '' (ES)'' else sname)
          vtype datasource defaults prms)"
  by (simp add: get_or_create_slice_unfold Let_def)

lemma get_or_create_slice_persisted:
  assumes "get_or_create_slice sname vtype datasource defaults prms w = (slc, w')"
  shows "fst slc = Some (length (slices w))"
    and "length (slices w') = Suc (length (slices w))"
    and "slices w' ! length (slices w) = Some (snd slc)"
proof -
  define nm where "nm = (if ds_type datasource = ''elasticsearch'' then sname @ '' (ES)'' else sname)"
  define w1 where "w1 = (case query_first (\<lambda>s. slice_name s = nm) (slices w) of
                  Some obj \<Rightarrow> delete_slice obj w
                | None \<Rightarrow> w)"
  have l: "length (slices w1) = length (slices w)"
    by (simp add: w1_def length_delete_slice split: option.splits)
  from assms have s: "fst slc = Some (length (slices w))"
    and w': "w' = w1\<lparr>slices := slices w1 @ [Some (snd slc)]\<rparr>"
    by (auto simp: get_or_create_slice_unfold Let_def nm_def w1_def)
  show "fst slc = Some (length (slices w))" by (rule s)
  show "length (slices w') = Suc (length (slices w))" by (simp add: w' l)
  show "slices w' ! length (slices w) = Some (snd slc)" 
    using l by (simp add: w' nth_append)
qed

text \<open>
  Claim C2, as amended. The keys of the persisted parameter blob of a slice are the keys of the
  defaults, the keys of the overrides and the five keys \<^verbatim>\<open>slice_name\<close>, \<^verbatim>\<open>viz_type\<close>,
  \<^verbatim>\<open>datasource_type\<close>, \<^verbatim>\<open>datasource_id\<close>, \<^verbatim>\<open>datasource_name\<close> that the function
  stores itself; every key of the overrides carries the override value; the slice is persisted.
\<close>

theorem slice_blob_keys_and_overrides:
  assumes "distinct (map fst defaults)" and "distinct (map fst prms)"
      and "get_or_create_slice sname vtype datasource defaults prms w = (slc, w')"
  shows "fst ` set (params (snd slc)) =
           fst ` set defaults \<union> fst ` set prms \<union>
           {''slice_name'', ''viz_type'', ''datasource_type'', ''datasource_id'', ''datasource_name''}
         \<and> (\<forall>k v. map_of prms k = Some v \<longrightarrow> map_of (params (snd slc)) k = Some v)
         \<and> (\<exists>i. fst slc = Some i \<and> i < length (slices w') \<and> slices w' ! i = Some (snd slc))"
proof -
  have p: "params (snd slc) =
     json_dumps_sorted
       (slice_params (if ds_type datasource = ''elasticsearch'' then sname @ '' (ES)'' else sname)
          vtype datasource defaults prms)"
    using get_or_create_slice_params [of sname vtype datasource defaults prms w] assms(3) by simp
  have e: "\<exists>i. fst slc = Some i \<and> i < length (slices w') \<and> slices w' ! i = Some (snd slc)"
    using get_or_create_slice_persisted [OF assms(3)] by simp
  have k: "fst ` set (params (snd slc)) =
           fst ` set defaults \<union> fst ` set prms \<union>
           {''slice_name'', ''viz_type'', ''datasource_type'', ''datasource_id'', ''datasource_name''}"
    unfolding p by (rule slice_params_keys)
  have o: "\<forall>k v. map_of prms k = Some v \<longrightarrow> map_of (params (snd slc)) k = Some v"
    unfolding p using slice_params_override [OF assms(1,2)] by blast
  from k o e show ?thesis by (intro conjI)
qed

text \<open>
  Claim C2 as stated fails: with no defaults and the single override \<^verbatim>\<open>metric\<close>, the blob has
  more keys than the union of the two key sets.
\<close>

theorem slice_blob_keys_counterexample:
  "fst ` set (params (snd (fst (get_or_create_slice ''Energy Sankey'' ''sankey''
       (SqlaTable (Some 0, snd (TBL ''energy_usage''))) [] [(''metric'', JStr ''sum__value'')] empty_world))))
   \<noteq> fst ` set ([] :: dict) \<union> fst ` set [(''metric'', JStr ''sum__value'')]"
proof
  assume eq: "fst ` set (params (snd (fst (get_or_create_slice ''Energy Sankey'' ''sankey''
       (SqlaTable (Some 0, snd (TBL ''energy_usage''))) [] [(''metric'', JStr ''sum__value'')] empty_world))))
   = fst ` set ([] :: dict) \<union> fst ` set [(''metric'', JStr ''sum__value'')]"
  have "''slice_name'' \<in> fst ` set (params (snd (fst (get_or_create_slice ''Energy Sankey'' ''sankey''
       (SqlaTable (Some 0, snd (TBL ''energy_usage''))) [] [(''metric'', JStr ''sum__value'')] empty_world))))"
    unfolding get_or_create_slice_params slice_params_keys by simp
  then have "''slice_name'' \<in> fst ` set ([] :: dict) \<union> fst ` set [(''metric'', JStr ''sum__value'')]"
    unfolding eq .
  then show False by simp
qed

text \<open>The amended claim C2 at a default and an override for the same key.\<close>

theorem slice_blob_keys_and_overrides_witness:
  "distinct (map fst [(''metric'', JStr ''count'')])
   \<and> distinct (map fst [(''metric'', JStr ''sum__value'')])
   \<and> fst ` set (params (snd (fst (get_or_create_slice ''Heatmap'' ''heatmap''
          (SqlaTable (Some 0, snd (TBL ''energy_usage'')))
          [(''metric'', JStr ''count'')] [(''metric'', JStr ''sum__value'')] empty_world)))) =
        {''metric'', ''slice_name'', ''viz_type'', ''datasource_type'', ''datasource_id'', ''datasource_name''}
   \<and> map_of (params (snd (fst (get_or_create_slice ''Heatmap'' ''heatmap''
          (SqlaTable (Some 0, snd (TBL ''energy_usage'')))
          [(''metric'', JStr ''count'')] [(''metric'', JStr ''sum__value'')] empty_world)))) ''metric''
        = Some (JStr ''sum__value'')"
  using slice_blob_keys_and_overrides [of "[(''metric'', JStr ''count'')]" "[(''metric'', JStr ''sum__value'')]"
      "''Heatmap''" "''heatmap''" "SqlaTable (Some 0, snd (TBL ''energy_usage''))" empty_world
      "fst (get_or_create_slice ''Heatmap'' ''heatmap''
          (SqlaTable (Some 0, snd (TBL ''energy_usage'')))
          [(''metric'', JStr ''count'')] [(''metric'', JStr ''sum__value'')] empty_world)"
      "snd (get_or_create_slice ''Heatmap'' ''heatmap''
          (SqlaTable (Some 0, snd (TBL ''energy_usage'')))
          [(''metric'', JStr ''count'')] [(''metric'', JStr ''sum__value'')] empty_world)"]
  by auto

lemma get_or_create_slice_name:
  "slice_name (snd (fst (get_or_create_slice sname vtype datasource defaults prms w))) =
     (if ds_type datasource = ''elasticsearch'' then sname @ '' (ES)'' else sname)"
  by (simp add: get_or_create_slice_unfold Let_def)

lemma delete_slice_other:
  assumes "query_first P (slices w) = Some obj" and "i < length (slices w)"
      and "slices w ! i = Some s" and "\<not> P s"
  shows "slices (delete_slice obj w) ! i = Some s"
proof -
  from query_first_Some [OF assms(1)] obtain j where
    j: "fst obj = Some j" "slices w ! j = Some (snd obj)" "P (snd obj)" by blast
  with assms(3,4) have "i \<noteq> j" by auto
  then show ?thesis using j(1) assms(3) by (simp add: delete_slice_def session_delete_def)
qed

lemma delete_slice_found:
  assumes "query_first P (slices w) = Some obj"
  shows "\<exists>j. fst obj = Some j \<and> j < length (slices w) \<and> slices (delete_slice obj w) ! j = None"
proof -
  from query_first_Some [OF assms(1)] obtain j where
    j: "fst obj = Some j" "j < length (slices w)" by blast
  then show ?thesis by (auto simp: delete_slice_def session_delete_def)
qed

lemma get_or_create_slice_other:
  assumes g: "get_or_create_slice sname vtype datasource defaults prms w = (slc, w')"
      and i: "i < length (slices w)" "slices w ! i = Some s"
      and n: "slice_name s \<noteq> (if ds_type datasource = ''elasticsearch'' then sname @ '' (ES)'' else sname)"
  shows "slices w' ! i = Some s"
proof -
  define nm where "nm = (if ds_type datasource = ''elasticsearch'' then sname @ '' (ES)'' else sname)"
  define w1 where "w1 = (case query_first (\<lambda>s. slice_name s = nm) (slices w) of
                  Some obj \<Rightarrow> delete_slice obj w
                | None \<Rightarrow> w)"
  have l: "length (slices w1) = length (slices w)"
    by (simp add: w1_def length_delete_slice split: option.splits)
  have "slices w1 ! i = Some s"
  proof (cases "query_first (\<lambda>s. slice_name s = nm) (slices w)")
    case None
    then show ?thesis using i by (simp add: w1_def)
  next
    case (Some obj)
    then show ?thesis
      using delete_slice_other [OF Some i] n by (simp add: w1_def nm_def)
  qed
  moreover from g have "slices w' = slices w1 @ [Some (snd slc)]"
    by (auto simp: get_or_create_slice_unfold Let_def nm_def w1_def)
  ultimately show ?thesis using i l by (simp add: nth_append)
qed

lemma get_or_create_slice_deleted:
  assumes g: "get_or_create_slice sname vtype datasource defaults prms w = (slc, w')"
      and q: "query_first (\<lambda>s. slice_name s =
                (if ds_type datasource = ''elasticsearch'' then sname @ '' (ES)'' else sname)) (slices w) = Some obj"
  shows "\<exists>j. fst obj = Some j \<and> j < length (slices w) \<and> slices w' ! j = None"
proof -
  from delete_slice_found [OF q] obtain j where
    j: "fst obj = Some j" "j < length (slices w)" "slices (delete_slice obj w) ! j = None" by blast
  from g q have "slices w' = slices (delete_slice obj w) @ [Some (snd slc)]"
    by (auto simp: get_or_create_slice_unfold Let_def)
  then show ?thesis using j by (auto simp: nth_append length_delete_slice)
qed

text \<open>
  Claim C9. For a datasource of type \<^verbatim>\<open>elasticsearch\<close> the slice is persisted under the
  requested name followed by \<^verbatim>\<open> (ES)\<close>, which differs from the requested name; the slice
  that the lookup under the suffixed name finds is the one deleted, and every slice under
  another name, the relational counterpart among them, stays as it is.
\<close>

theorem es_slice_name_suffix:
  assumes "ds_type datasource = ''elasticsearch''"
      and "get_or_create_slice sname vtype datasource defaults prms w = (slc, w')"
  shows "slice_name (snd slc) = sname @ '' (ES)'' \<and> sname @ '' (ES)'' \<noteq> sname
       \<and> (\<exists>i. fst slc = Some i \<and> i < length (slices w') \<and> slices w' ! i = Some (snd slc))
       \<and> (\<forall>obj. query_first (\<lambda>s. slice_name s = sname @ '' (ES)'') (slices w) = Some obj \<longrightarrow>
             (\<exists>j. fst obj = Some j \<and> j < length (slices w) \<and> slices w' ! j = None))
       \<and> (\<forall>i s. i < length (slices w) \<and> slices w ! i = Some s \<and> slice_name s \<noteq> sname @ '' (ES)'' \<longrightarrow>
             slices w' ! i = Some s)"
proof -
  have a: "slice_name (snd slc) = sname @ '' (ES)''"
    using get_or_create_slice_name [of sname vtype datasource defaults prms w] assms by simp
  have b: "\<exists>i. fst slc = Some i \<and> i < length (slices w') \<and> slices w' ! i = Some (snd slc)"
    using get_or_create_slice_persisted [OF assms(2)] by simp
  have c: "\<forall>obj. query_first (\<lambda>s. slice_name s = sname @ '' (ES)'') (slices w) = Some obj \<longrightarrow>
             (\<exists>j. fst obj = Some j \<and> j < length (slices w) \<and> slices w' ! j = None)"
    using get_or_create_slice_deleted [OF assms(2)] assms(1) by simp
  have d: "\<forall>i s. i < length (slices w) \<and> slices w ! i = Some s \<and> slice_name s \<noteq> sname @ '' (ES)'' \<longrightarrow>
             slices w' ! i = Some s"
    using get_or_create_slice_other [OF assms(2)] assms(1) by simp
  from a b c d show ?thesis by simp
qed

text \<open>Claim C9 on a store that holds a slice under either name.\<close>

theorem es_slice_name_suffix_witness:
  "ds_type sample_es_datasource = ''elasticsearch''
   \<and> slice_name (snd (fst (get_or_create_slice ''Heatmap'' ''heatmap'' sample_es_datasource [] [] sample_world)))
       = ''Heatmap (ES)''
   \<and> slices (snd (get_or_create_slice ''Heatmap'' ''heatmap'' sample_es_datasource [] [] sample_world)) ! 0
       = Some (sample_slice ''Heatmap'')
   \<and> slices (snd (get_or_create_slice ''Heatmap'' ''heatmap'' sample_es_datasource [] [] sample_world)) ! 1
       = None"
proof -
  let ?g = "get_or_create_slice ''Heatmap'' ''heatmap'' sample_es_datasource [] [] sample_world"
  have t: "ds_type sample_es_datasource = ''elasticsearch''"
    by (simp add: sample_es_datasource_def)
  have q: "query_first (\<lambda>s. slice_name s = ''Heatmap'' @ '' (ES)'') (slices sample_world)
             = Some (Some 1, sample_slice ''Heatmap (ES)'')"
    by (simp add: query_first_def sample_world_def sample_slice_def)
  have s: "slices sample_world ! 0 = Some (sample_slice ''Heatmap'')" "0 < length (slices sample_world)"
          "slice_name (sample_slice ''Heatmap'') \<noteq> ''Heatmap'' @ '' (ES)''"
    by (simp_all add: sample_world_def sample_slice_def)
  from es_slice_name_suffix [OF t, of "''Heatmap''" "''heatmap''" "[]" "[]" sample_world "fst ?g" "snd ?g"]
  show ?thesis using t q s by auto
qed

section \<open>The data importer: the relational path\<close>

lemma get_or_create_db_frame:
  assumes "get_or_create_db e w = (dbobj, w1)"
  shows "tables w1 = tables w" "slices w1 = slices w" "dashboards w1 = dashboards w"
        "engine w1 = engine w" "es_indices w1 = es_indices w" "es_datasources w1 = es_datasources w"
        "clusters w1 = clusters w" "css_templates w1 = css_templates w"
  using assms by (auto simp: get_or_create_db_def Let_def split: prod.splits)

lemma table_ref_unfold:
  assumes g: "get_or_create_db e w = (dbobj, w1)"
  shows "table_ref e tname description w =
     (let obj = (case query_first (\<lambda>t. table_name t = tname) (tables w) of
                   Some t \<Rightarrow> t
                 | None \<Rightarrow> TBL tname);
          (ds, t) = session_add (fst obj, table_columns tname description (fst dbobj) (snd obj)) (tables w)
      in (SqlaTable ds, w1\<lparr>tables := t\<rparr>))"
proof -
  have a: "apsnd f x = (fst x, f (snd x))" for f :: "sqla_table \<Rightarrow> sqla_table" and x
    by (cases x) simp
  have c: "t\<lparr>tbl_is_featured := x, tbl_main_dttm_col := y\<rparr> = t\<lparr>tbl_main_dttm_col := y, tbl_is_featured := x\<rparr>"
    for t :: sqla_table and x y
    by (cases t) simp
  show ?thesis
    by (simp add: table_ref_def Let_def g get_or_create_db_frame(1) [OF g] a c table_columns_def)
qed

lemma table_ref_result:
  assumes r: "table_ref e tname description w = (ds, w')"
  shows "\<exists>i t. ds = SqlaTable (Some i, t) \<and> i < length (tables w') \<and> tables w' ! i = Some t
           \<and> query_first (\<lambda>t. table_name t = tname) (tables w') = Some (Some i, t)
           \<and> table_name t = tname
           \<and> tbl_is_featured t = (tname \<noteq> ''random_time_series'')
           \<and> tbl_description t = Some description"
    and "count_where (\<lambda>t. table_name t = tname) (tables w') =
           (if count_where (\<lambda>t. table_name t = tname) (tables w) = 0 then 1
            else count_where (\<lambda>t. table_name t = tname) (tables w))"
    and "engine w' = engine w" and "slices w' = slices w" and "dashboards w' = dashboards w"
    and "es_indices w' = es_indices w" and "es_datasources w' = es_datasources w"
proof -
  obtain dbobj w1 where g: "get_or_create_db e w = (dbobj, w1)" by (cases "get_or_create_db e w")
  define obj where "obj = (case query_first (\<lambda>t. table_name t = tname) (tables w) of
                   Some t \<Rightarrow> t
                 | None \<Rightarrow> TBL tname)"
  define cols where "cols = table_columns tname description (fst dbobj) (snd obj)"
  obtain o' t' where a: "session_add (fst obj, cols) (tables w) = (o', t')"
    by (cases "session_add (fst obj, cols) (tables w)")
  from r have ds: "ds = SqlaTable o'" and w': "w' = w1\<lparr>tables := t'\<rparr>"
    by (simp_all add: table_ref_unfold [OF g] Let_def a flip: obj_def cols_def)
  have n: "table_name (snd obj) = tname"
    by (auto simp: obj_def TBL_def split: option.splits dest: query_first_Some)
  then have p: "table_name cols = tname" by (simp add: cols_def table_columns_def)
  have obj': "obj = (case query_first (\<lambda>t. table_name t = tname) (tables w) of
                   Some t \<Rightarrow> t
                 | None \<Rightarrow> (None, snd (TBL tname)))"
    by (simp add: obj_def TBL_def split: option.splits)
  note u = upsert [where P = "\<lambda>t. table_name t = tname", OF obj' p a]
  from u(3) obtain i where i: "fst o' = Some i" "i < length t'" "t' ! i = Some cols" by blast
  have o': "o' = (Some i, cols)" using i(1) u(2) by (cases o') simp
  show "\<exists>i t. ds = SqlaTable (Some i, t) \<and> i < length (tables w') \<and> tables w' ! i = Some t
           \<and> query_first (\<lambda>t. table_name t = tname) (tables w') = Some (Some i, t)
           \<and> table_name t = tname
           \<and> tbl_is_featured t = (tname \<noteq> ''random_time_series'')
           \<and> tbl_description t = Some description"
    using i u(1) p by (auto simp: ds w' o' cols_def table_columns_def)
  show "count_where (\<lambda>t. table_name t = tname) (tables w') =
           (if count_where (\<lambda>t. table_name t = tname) (tables w) = 0 then 1
            else count_where (\<lambda>t. table_name t = tname) (tables w))"
    using u(4) by (simp add: w')
  show "engine w' = engine w" and "slices w' = slices w" and "dashboards w' = dashboards w"
    and "es_indices w' = es_indices w" and "es_datasources w' = es_datasources w"
    using get_or_create_db_frame [OF g] by (simp_all add: w')
qed

lemma import_data_relational:
  assumes "pd_read_json e file_name = Inr pdf"
      and "coerce_dates tname (rename_columns pdf) = Inr pdf'"
      and "to_sql_fault e = None"
  shows "import_data e file_name tname description dt None w =
           Inr (table_ref e tname description (w\<lparr>engine := AList.update tname (dt, pdf') (engine w)\<rparr>))"
  using assms by (simp add: import_data_def to_sql_def)

lemma import_data_relational_Inr:
  assumes "import_data e file_name tname description dt None w = Inr (ds, w')"
  shows "\<exists>pdf pdf'. pd_read_json e file_name = Inr pdf
           \<and> coerce_dates tname (rename_columns pdf) = Inr pdf'
           \<and> to_sql_fault e = None
           \<and> table_ref e tname description (w\<lparr>engine := AList.update tname (dt, pdf') (engine w)\<rparr>) = (ds, w')"
  using assms by (auto simp: import_data_def to_sql_def split: sum.splits option.splits)

text \<open>
  Claim C10. In the relational path the dataset record that the importer returns is the
  persisted record found under the table name, and its \<^verbatim>\<open>is_featured\<close> flag is false exactly
  when the table name is \<^verbatim>\<open>random_time_series\<close>.
\<close>

theorem is_featured_relational:
  assumes "import_data e file_name tname description dt None w = Inr (ds, w')"
  shows "\<exists>i t. ds = SqlaTable (Some i, t) \<and> i < length (tables w') \<and> tables w' ! i = Some t
           \<and> query_first (\<lambda>t. table_name t = tname) (tables w') = Some (Some i, t)
           \<and> (tbl_is_featured t \<longleftrightarrow> tname \<noteq> ''random_time_series'')"
proof -
  from import_data_relational_Inr [OF assms] obtain pdf' where
    "table_ref e tname description (w\<lparr>engine := AList.update tname (dt, pdf') (engine w)\<rparr>) = (ds, w')"
    by blast
  from table_ref_result(1) [OF this] show ?thesis by blast
qed

lemma sample_import:
  "tname = ''birth_names'' \<or> tname = ''random_time_series'' \<Longrightarrow>
   import_data sample_env file_name tname description dt None w =
     Inr (table_ref sample_env tname description
            (w\<lparr>engine := AList.update tname
                 (dt, AList.update ''ds'' (map (ToDatetime (Some (if tname = ''birth_names'' then ''ms'' else ''s''))) [Val (JInt 0), Val (JInt 86400000)]) sample_frame) (engine w)\<rparr>))"
  by (rule import_data_relational [where pdf = sample_frame])
     (auto simp: sample_env_def sample_frame_def rename_columns_def coerce_dates_def get_column_def
        set_column_def to_datetime_def)

text \<open>Claim C10 on the two table names that differ in the flag.\<close>

theorem is_featured_relational_witness:
  "tbl_is_featured (snd (case fst (projr (import_data sample_env ''birth_names.json.gz'' ''birth_names'' [] [] None empty_world)) of SqlaTable t \<Rightarrow> t))
   \<and> \<not> tbl_is_featured (snd (case fst (projr (import_data sample_env ''random_time_series.json.gz'' ''random_time_series'' ''Random time series'' [] None empty_world)) of SqlaTable t \<Rightarrow> t))"
proof -
  let ?a = "projr (import_data sample_env ''birth_names.json.gz'' ''birth_names'' [] [] None empty_world)"
  let ?b = "projr (import_data sample_env ''random_time_series.json.gz'' ''random_time_series'' ''Random time series'' [] None empty_world)"
  have a: "import_data sample_env ''birth_names.json.gz'' ''birth_names'' [] [] None empty_world = Inr (fst ?a, snd ?a)"
    by (simp add: sample_import)
  have b: "import_data sample_env ''random_time_series.json.gz'' ''random_time_series'' ''Random time series'' [] None empty_world = Inr (fst ?b, snd ?b)"
    by (simp add: sample_import)
  from is_featured_relational [OF a] is_featured_relational [OF b] show ?thesis by auto
qed

lemma table_ref_engine: "engine (snd (table_ref e tname description w)) = engine w"
  using table_ref_result(3) [of e tname description w "fst (table_ref e tname description w)"
      "snd (table_ref e tname description w)"]
  by simp

lemma import_data_coerced:
  assumes "pd_read_json e file_name = Inr pdf" and "to_sql_fault e = None"
      and "map_of (rename_columns pdf) c = Some col"
      and "coerce_dates tname (rename_columns pdf) =
             Inr (AList.update c (map (ToDatetime unit) col) (rename_columns pdf))"
  shows "\<exists>ds w'. import_data e file_name tname description dt None w = Inr (ds, w')
           \<and> map_of (engine w') tname =
               Some (dt, AList.update c (map (ToDatetime unit) col) (rename_columns pdf))"
proof -
  let ?pdf = "AList.update c (map (ToDatetime unit) col) (rename_columns pdf)"
  let ?r = "table_ref e tname description (w\<lparr>engine := AList.update tname (dt, ?pdf) (engine w)\<rparr>)"
  have "import_data e file_name tname description dt None w = Inr (fst ?r, snd ?r)"
    using import_data_relational [OF assms(1) assms(4) assms(2)] by simp
  moreover have "map_of (engine (snd ?r)) tname = Some (dt, ?pdf)"
    by (simp add: table_ref_engine update_conv')
  ultimately show ?thesis by blast
qed

text \<open>
  Claim C5. In the relational path, when the packaged file parses and the table write does not
  fail, the table written under the name \<^verbatim>\<open>birth_names\<close> holds the frame of the file (its
  column labels normalised) with the column \<^verbatim>\<open>ds\<close> replaced by its conversion to date/time
  values with the unit milliseconds, and the table written under the name
  \<^verbatim>\<open>wb_health_population\<close> holds the frame with the column \<^verbatim>\<open>year\<close> replaced by its
  conversion to date/time values without a unit.
\<close>

theorem date_coercion:
  assumes "pd_read_json e file_name = Inr pdf" and "to_sql_fault e = None"
  shows "(tname = ''birth_names'' \<and> map_of (rename_columns pdf) ''ds'' = Some col \<longrightarrow>
            (\<exists>ds w'. import_data e file_name tname description dt None w = Inr (ds, w')
               \<and> map_of (engine w') tname =
                   Some (dt, AList.update ''ds'' (map (ToDatetime (Some ''ms'')) col) (rename_columns pdf))))
       \<and> (tname = ''wb_health_population'' \<and> map_of (rename_columns pdf) ''year'' = Some col \<longrightarrow>
            (\<exists>ds w'. import_data e file_name tname description dt None w = Inr (ds, w')
               \<and> map_of (engine w') tname =
                   Some (dt, AList.update ''year'' (map (ToDatetime None) col) (rename_columns pdf))))"
proof (intro conjI impI)
  assume a: "tname = ''birth_names'' \<and> map_of (rename_columns pdf) ''ds'' = Some col"
  then have "coerce_dates tname (rename_columns pdf) =
      Inr (AList.update ''ds'' (map (ToDatetime (Some ''ms'')) col) (rename_columns pdf))"
    by (simp add: coerce_dates_def get_column_def set_column_def to_datetime_def)
  with a show "\<exists>ds w'. import_data e file_name tname description dt None w = Inr (ds, w')
               \<and> map_of (engine w') tname =
                   Some (dt, AList.update ''ds'' (map (ToDatetime (Some ''ms'')) col) (rename_columns pdf))"
    by (intro import_data_coerced [OF assms]) simp_all
next
  assume a: "tname = ''wb_health_population'' \<and> map_of (rename_columns pdf) ''year'' = Some col"
  then have "coerce_dates tname (rename_columns pdf) =
      Inr (AList.update ''year'' (map (ToDatetime None) col) (rename_columns pdf))"
    by (simp add: coerce_dates_def get_column_def set_column_def to_datetime_def)
  with a show "\<exists>ds w'. import_data e file_name tname description dt None w = Inr (ds, w')
               \<and> map_of (engine w') tname =
                   Some (dt, AList.update ''year'' (map (ToDatetime None) col) (rename_columns pdf))"
    by (intro import_data_coerced [OF assms]) simp_all
qed

text \<open>Claim C5 on a frame of two rows, for either table name.\<close>

theorem date_coercion_witness:
  "pd_read_json sample_env ''birth_names.json.gz'' = Inr sample_frame
   \<and> to_sql_fault sample_env = None
   \<and> map_of (rename_columns sample_frame) ''ds'' = Some [Val (JInt 0), Val (JInt 86400000)]
   \<and> map_of (engine (snd (projr (import_data sample_env ''birth_names.json.gz'' ''birth_names'' [] [] None empty_world))))
        ''birth_names''
       = Some ([], [(''ds'', [ToDatetime (Some ''ms'') (Val (JInt 0)), ToDatetime (Some ''ms'') (Val (JInt 86400000))]),
                    (''year'', [Val (JStr ''1960''), Val (JStr ''1961'')]),
                    (''num'', [Val (JInt 7), Val (JInt 9)])])
   \<and> map_of (rename_columns sample_frame) ''year'' = Some [Val (JStr ''1960''), Val (JStr ''1961'')]
   \<and> map_of (engine (snd (projr (import_data sample_env ''birth_names.json.gz'' ''wb_health_population'' [] [] None empty_world))))
        ''wb_health_population''
       = Some ([], [(''ds'', [Val (JInt 0), Val (JInt 86400000)]),
                    (''year'', [ToDatetime None (Val (JStr ''1960'')), ToDatetime None (Val (JStr ''1961''))]),
                    (''num'', [Val (JInt 7), Val (JInt 9)])])"
proof -
  have r: "pd_read_json sample_env ''birth_names.json.gz'' = Inr sample_frame"
    and f: "to_sql_fault sample_env = None"
    by (simp_all add: sample_env_def)
  have c: "rename_columns sample_frame = sample_frame"
    by (simp add: rename_columns_def sample_frame_def)
  have d: "map_of (rename_columns sample_frame) ''ds'' = Some [Val (JInt 0), Val (JInt 86400000)]"
    and y: "map_of (rename_columns sample_frame) ''year'' = Some [Val (JStr ''1960''), Val (JStr ''1961'')]"
    unfolding c by (simp_all add: sample_frame_def)
  from date_coercion [OF r f, of "''birth_names''" "[Val (JInt 0), Val (JInt 86400000)]" "[]" "[]" empty_world, unfolded c] d [unfolded c]
  have 1: "map_of (engine (snd (projr (import_data sample_env ''birth_names.json.gz'' ''birth_names'' [] [] None empty_world))))
        ''birth_names''
       = Some ([], [(''ds'', [ToDatetime (Some ''ms'') (Val (JInt 0)), ToDatetime (Some ''ms'') (Val (JInt 86400000))]),
                    (''year'', [Val (JStr ''1960''), Val (JStr ''1961'')]),
                    (''num'', [Val (JInt 7), Val (JInt 9)])])"
    by (auto simp: sample_frame_def)
  from date_coercion [OF r f, of "''wb_health_population''" "[Val (JStr ''1960''), Val (JStr ''1961'')]" "[]" "[]" empty_world, unfolded c] y [unfolded c]
  have 2: "map_of (engine (snd (projr (import_data sample_env ''birth_names.json.gz'' ''wb_health_population'' [] [] None empty_world))))
        ''wb_health_population''
       = Some ([], [(''ds'', [Val (JInt 0), Val (JInt 86400000)]),
                    (''year'', [ToDatetime None (Val (JStr ''1960'')), ToDatetime None (Val (JStr ''1961''))]),
                    (''num'', [Val (JInt 7), Val (JInt 9)])])"
    by (auto simp: sample_frame_def)
  from r f d y 1 2 show ?thesis by (intro conjI)
qed

section \<open>Creating slices\<close>

lemma slice_key_inj [simp]: "slice_key ds a = slice_key ds b \<longleftrightarrow> a = b"
  by (simp add: slice_key_def)

lemma get_or_create_slice_eq:
  "get_or_create_slice sname vtype ds defaults prms w =
     (let w1 = (case query_first (\<lambda>s. slice_name s = slice_key ds sname) (slices w) of
                  Some obj \<Rightarrow> delete_slice obj w
                | None \<Rightarrow> w)
      in ((Some (length (slices w)), slice_row ds defaults (sname, vtype, prms)),
          w1\<lparr>slices := slices w1 @ [Some (slice_row ds defaults (sname, vtype, prms))]\<rparr>))"
  by (simp add: get_or_create_slice_unfold Let_def slice_row_def slice_key_def)

lemma delete_slice_frame:
  "dbs (delete_slice obj w) = dbs w" "clusters (delete_slice obj w) = clusters w"
  "tables (delete_slice obj w) = tables w" "es_datasources (delete_slice obj w) = es_datasources w"
  "css_templates (delete_slice obj w) = css_templates w" "engine (delete_slice obj w) = engine w"
  "es_indices (delete_slice obj w) = es_indices w"
  "map (map_option dash_key) (dashboards (delete_slice obj w)) = map (map_option dash_key) (dashboards w)"
  by (simp_all add: delete_slice_def dash_key_def [abs_def] option.map_comp comp_def)

lemma get_or_create_slice_frame:
  assumes "get_or_create_slice sname vtype ds defaults prms w = (slc, w')"
  shows "dbs w' = dbs w" "clusters w' = clusters w" "tables w' = tables w"
    "es_datasources w' = es_datasources w" "css_templates w' = css_templates w"
    "engine w' = engine w" "es_indices w' = es_indices w"
    "map (map_option dash_key) (dashboards w') = map (map_option dash_key) (dashboards w)"
  using assms
  by (auto simp: get_or_create_slice_eq Let_def delete_slice_frame split: option.splits)

lemma get_or_create_slice_count:
  assumes "get_or_create_slice sname vtype ds defaults prms w = (slc, w')"
  shows "count_where (\<lambda>s. slice_name s = n) (slices w') =
           (if n = slice_key ds sname
            then (if count_where (\<lambda>s. slice_name s = n) (slices w) = 0 then 1
                  else count_where (\<lambda>s. slice_name s = n) (slices w))
            else count_where (\<lambda>s. slice_name s = n) (slices w))"
proof (cases "query_first (\<lambda>s. slice_name s = slice_key ds sname) (slices w)")
  case None
  then have "count_where (\<lambda>s. slice_name s = slice_key ds sname) (slices w) = 0"
    by (simp add: query_first_None)
  moreover from assms None have "slices w' = slices w @ [Some (slice_row ds defaults (sname, vtype, prms))]"
    by (auto simp: get_or_create_slice_eq)
  ultimately show ?thesis by (auto simp: count_where_append slice_row_def)
next
  case (Some obj)
  from query_first_Some [OF Some] obtain j where
    j: "fst obj = Some j" "j < length (slices w)" "slices w ! j = Some (snd obj)"
       "slice_name (snd obj) = slice_key ds sname" by blast
  have c: "count_where (\<lambda>s. slice_name s = slice_key ds sname) (slices w) \<noteq> 0"
    using Some query_first_None [of "\<lambda>s. slice_name s = slice_key ds sname" "slices w"] by simp
  from assms Some have w': "slices w' = (slices w)[j := None] @ [Some (slice_row ds defaults (sname, vtype, prms))]"
    by (auto simp: get_or_create_slice_eq delete_slice_def session_delete_def j(1))
  from count_where_delete [OF j(2,3), of "\<lambda>s. slice_name s = n"] c j(4)
  show ?thesis by (auto simp: w' count_where_append slice_row_def)
qed

lemma get_or_create_slice_total:
  assumes "get_or_create_slice sname vtype ds defaults prms w = (slc, w')"
  shows "count_where (\<lambda>s. True) (slices w') =
           (if count_where (\<lambda>s. slice_name s = slice_key ds sname) (slices w) = 0
            then Suc (count_where (\<lambda>s. True) (slices w))
            else count_where (\<lambda>s. True) (slices w))"
proof (cases "query_first (\<lambda>s. slice_name s = slice_key ds sname) (slices w)")
  case None
  then have "count_where (\<lambda>s. slice_name s = slice_key ds sname) (slices w) = 0"
    by (simp add: query_first_None)
  moreover from assms None have "slices w' = slices w @ [Some (slice_row ds defaults (sname, vtype, prms))]"
    by (auto simp: get_or_create_slice_eq)
  ultimately show ?thesis by (auto simp: count_where_append)
next
  case (Some obj)
  from query_first_Some [OF Some] obtain j where
    j: "fst obj = Some j" "j < length (slices w)" "slices w ! j = Some (snd obj)" by blast
  have c: "count_where (\<lambda>s. slice_name s = slice_key ds sname) (slices w) \<noteq> 0"
    using Some query_first_None [of "\<lambda>s. slice_name s = slice_key ds sname" "slices w"] by simp
  from assms Some have w': "slices w' = (slices w)[j := None] @ [Some (slice_row ds defaults (sname, vtype, prms))]"
    by (auto simp: get_or_create_slice_eq delete_slice_def session_delete_def j(1))
  from count_where_delete [OF j(2,3), of "\<lambda>s. True"] c
  show ?thesis by (auto simp: w' count_where_append)
qed

lemma create_slices_frame:
  assumes "create_slices ds defaults specs w = (slcs, w')"
  shows "dbs w' = dbs w \<and> clusters w' = clusters w \<and> tables w' = tables w
       \<and> es_datasources w' = es_datasources w \<and> css_templates w' = css_templates w
       \<and> engine w' = engine w \<and> es_indices w' = es_indices w
       \<and> map (map_option dash_key) (dashboards w') = map (map_option dash_key) (dashboards w)"
  using assms
proof (induction specs arbitrary: w slcs w')
  case Nil
  then show ?case by simp
next
  case (Cons spec specs)
  obtain sname vtype prms where spec: "spec = (sname, vtype, prms)" by (cases spec)
  obtain slc w1 where g: "get_or_create_slice sname vtype ds defaults prms w = (slc, w1)"
    by (cases "get_or_create_slice sname vtype ds defaults prms w")
  obtain rest w2 where r: "create_slices ds defaults specs w1 = (rest, w2)"
    by (cases "create_slices ds defaults specs w1")
  from Cons.prems have "w' = w2" by (simp add: spec g r)
  with Cons.IH [OF r] get_or_create_slice_frame [OF g] show ?case by simp
qed

lemma create_slices_handles:
  assumes "create_slices ds defaults specs w = (slcs, w')"
  shows "map fst slcs = map Some [length (slices w)..<length (slices w) + length specs]
       \<and> map snd slcs = map (slice_row ds defaults) specs
       \<and> length (slices w') = length (slices w) + length specs"
  using assms
proof (induction specs arbitrary: w slcs w')
  case Nil
  then show ?case by auto
next
  case (Cons spec specs)
  obtain sname vtype prms where spec: "spec = (sname, vtype, prms)" by (cases spec)
  obtain slc w1 where g: "get_or_create_slice sname vtype ds defaults prms w = (slc, w1)"
    by (cases "get_or_create_slice sname vtype ds defaults prms w")
  obtain rest w2 where r: "create_slices ds defaults specs w1 = (rest, w2)"
    by (cases "create_slices ds defaults specs w1")
  from Cons.prems have s: "slcs = slc # rest" and w': "w' = w2" by (simp_all add: spec g r)
  from g have slc: "slc = (Some (length (slices w)), slice_row ds defaults spec)"
    by (auto simp: get_or_create_slice_eq Let_def spec)
  have l: "length (slices w1) = Suc (length (slices w))"
    by (rule get_or_create_slice_persisted(2) [OF g])
  have u: "[length (slices w)..<length (slices w) + length (spec # specs)]
             = length (slices w) # [Suc (length (slices w))..<Suc (length (slices w)) + length specs]"
    by (simp add: upt_conv_Cons del: upt_Suc)
  from Cons.IH [OF r] show ?case
    unfolding u by (simp add: s w' slc l del: upt_Suc)
qed

lemma get_or_create_slice_keeps:
  assumes g: "get_or_create_slice sname vtype ds defaults prms w = (slc, w')"
      and i: "i < length (slices w)" "slices w ! i = Some s"
      and n: "slice_name s \<noteq> slice_key ds sname"
  shows "slices w' ! i = Some s"
  using get_or_create_slice_other [OF g i] n by (simp add: slice_key_def)

lemma create_slices_keeps:
  assumes "create_slices ds defaults specs w = (slcs, w')"
      and "i < length (slices w)" "slices w ! i = Some s"
      and "slice_name s \<notin> slice_key ds ` fst ` set specs"
  shows "slices w' ! i = Some s"
  using assms
proof (induction specs arbitrary: w slcs w')
  case Nil
  then show ?case by simp
next
  case (Cons spec specs)
  obtain sname vtype prms where spec: "spec = (sname, vtype, prms)" by (cases spec)
  obtain slc w1 where g: "get_or_create_slice sname vtype ds defaults prms w = (slc, w1)"
    by (cases "get_or_create_slice sname vtype ds defaults prms w")
  obtain rest w2 where r: "create_slices ds defaults specs w1 = (rest, w2)"
    by (cases "create_slices ds defaults specs w1")
  from Cons.prems(1) have w': "w' = w2" by (simp add: spec g r)
  have 1: "slices w1 ! i = Some s"
    using get_or_create_slice_keeps [OF g Cons.prems(2,3)] Cons.prems(4) by (simp add: spec)
  have 2: "i < length (slices w1)"
    using get_or_create_slice_persisted(2) [OF g] Cons.prems(2) by simp
  from Cons.IH [OF r 2 1] Cons.prems(4) show ?case by (simp add: w')
qed

lemma create_slices_live:
  assumes "create_slices ds defaults specs w = (slcs, w')"
      and "distinct (map fst specs)" and "k < length specs"
  shows "slices w' ! (length (slices w) + k) = Some (slice_row ds defaults (specs ! k))"
  using assms
proof (induction specs arbitrary: w slcs w' k)
  case Nil
  then show ?case by simp
next
  case (Cons spec specs)
  obtain sname vtype prms where spec: "spec = (sname, vtype, prms)" by (cases spec)
  obtain slc w1 where g: "get_or_create_slice sname vtype ds defaults prms w = (slc, w1)"
    by (cases "get_or_create_slice sname vtype ds defaults prms w")
  obtain rest w2 where r: "create_slices ds defaults specs w1 = (rest, w2)"
    by (cases "create_slices ds defaults specs w1")
  from Cons.prems(1) have w': "w' = w2" by (simp add: spec g r)
  have l: "length (slices w1) = Suc (length (slices w))"
    by (rule get_or_create_slice_persisted(2) [OF g])
  from g have slc: "snd slc = slice_row ds defaults spec"
    by (auto simp: get_or_create_slice_eq Let_def spec)
  have row: "slices w1 ! length (slices w) = Some (slice_row ds defaults spec)"
    using get_or_create_slice_persisted(3) [OF g] slc by simp
  show ?case
  proof (cases k)
    case 0
    have "slice_name (slice_row ds defaults spec) \<notin> slice_key ds ` fst ` set specs"
      using Cons.prems(2) by (force simp: spec slice_row_def)
    from create_slices_keeps [OF r _ row this] l show ?thesis by (simp add: 0 w')
  next
    case (Suc k')
    from Cons.prems have "distinct (map fst specs)" "k' < length specs" by (simp_all add: Suc)
    from Cons.IH [OF r this] show ?thesis by (simp add: Suc w' l)
  qed
qed

lemma create_slices_count:
  assumes "create_slices ds defaults specs w = (slcs, w')"
      and "distinct (map fst specs)"
  shows "count_where (\<lambda>s. slice_name s = n) (slices w') =
           (if n \<in> slice_key ds ` fst ` set specs \<and> count_where (\<lambda>s. slice_name s = n) (slices w) = 0
            then 1 else count_where (\<lambda>s. slice_name s = n) (slices w))"
  using assms
proof (induction specs arbitrary: w slcs w')
  case Nil
  then show ?case by simp
next
  case (Cons spec specs)
  obtain sname vtype prms where spec: "spec = (sname, vtype, prms)" by (cases spec)
  obtain slc w1 where g: "get_or_create_slice sname vtype ds defaults prms w = (slc, w1)"
    by (cases "get_or_create_slice sname vtype ds defaults prms w")
  obtain rest w2 where r: "create_slices ds defaults specs w1 = (rest, w2)"
    by (cases "create_slices ds defaults specs w1")
  from Cons.prems(1) have w': "w' = w2" by (simp add: spec g r)
  from Cons.prems(2) have d: "distinct (map fst specs)" and f: "sname \<notin> fst ` set specs"
    by (force simp: spec)+
  have k: "slice_key ds sname \<notin> slice_key ds ` fst ` set specs" using f by force
  show ?case
    unfolding w' Cons.IH [OF r d] get_or_create_slice_count [OF g]
    using k by (auto simp: spec)
qed

lemma create_slices_total:
  assumes "create_slices ds defaults specs w = (slcs, w')"
      and "distinct (map fst specs)"
  shows "count_where (\<lambda>s. True) (slices w') =
           count_where (\<lambda>s. True) (slices w)
             + length (filter (\<lambda>spec. count_where (\<lambda>s. slice_name s = slice_key ds (fst spec)) (slices w) = 0) specs)"
  using assms
proof (induction specs arbitrary: w slcs w')
  case Nil
  then show ?case by simp
next
  case (Cons spec specs)
  obtain sname vtype prms where spec: "spec = (sname, vtype, prms)" by (cases spec)
  obtain slc w1 where g: "get_or_create_slice sname vtype ds defaults prms w = (slc, w1)"
    by (cases "get_or_create_slice sname vtype ds defaults prms w")
  obtain rest w2 where r: "create_slices ds defaults specs w1 = (rest, w2)"
    by (cases "create_slices ds defaults specs w1")
  from Cons.prems(1) have w': "w' = w2" by (simp add: spec g r)
  from Cons.prems(2) have d: "distinct (map fst specs)" and f: "sname \<notin> fst ` set specs"
    by (force simp: spec)+
  have "filter (\<lambda>spec. count_where (\<lambda>s. slice_name s = slice_key ds (fst spec)) (slices w1) = 0) specs
      = filter (\<lambda>spec. count_where (\<lambda>s. slice_name s = slice_key ds (fst spec)) (slices w) = 0) specs"
    using f by (intro filter_cong refl) (auto simp: get_or_create_slice_count [OF g])
  then show ?case
    unfolding w' Cons.IH [OF r d] get_or_create_slice_total [OF g]
    by (simp add: spec)
qed

section \<open>Layouts and dashboards\<close>

lemma digit_char_inj: "a < 10 \<Longrightarrow> b < 10 \<Longrightarrow> digit_char a = digit_char b \<Longrightarrow> a = b"
proof -
  assume a: "a < 10" and b: "b < 10" and e: "digit_char a = digit_char b"
  from e have "of_char (digit_char a) = (of_char (digit_char b) :: nat)" by simp
  then have "(48 + a) mod 256 = (48 + b) mod 256" by (simp add: digit_char_def)
  with a b show "a = b" by simp
qed

lemma str_nat_not_Nil: "str_nat n \<noteq> []"
  by (subst str_nat.simps) simp

lemma str_nat_inj: "str_nat m = str_nat n \<Longrightarrow> m = n"
proof (induction m arbitrary: n rule: str_nat.induct)
  case (1 m)
  show ?case
  proof (cases "m < 10")
    case True
    then have m: "str_nat m = [digit_char m]" by (subst str_nat.simps) simp
    show ?thesis
    proof (cases "n < 10")
      case n: True
      then have "str_nat n = [digit_char n]" by (subst str_nat.simps) simp
      with m "1.prems" True n show ?thesis by (auto dest: digit_char_inj)
    next
      case False
      then have "str_nat n = str_nat (n div 10) @ [digit_char (n mod 10)]"
        by (subst str_nat.simps) simp
      with m "1.prems" str_nat_not_Nil [of "n div 10"] show ?thesis by simp
    qed
  next
    case False
    then have m: "str_nat m = str_nat (m div 10) @ [digit_char (m mod 10)]"
      by (subst str_nat.simps) simp
    show ?thesis
    proof (cases "n < 10")
      case True
      then have "str_nat n = [digit_char n]" by (subst str_nat.simps) simp
      with m "1.prems" str_nat_not_Nil [of "m div 10"] show ?thesis by simp
    next
      case n: False
      then have "str_nat n = str_nat (n div 10) @ [digit_char (n mod 10)]"
        by (subst str_nat.simps) simp
      with m "1.prems" have e: "str_nat (m div 10) = str_nat (n div 10)"
        and d: "digit_char (m mod 10) = digit_char (n mod 10)" by simp_all
      from "1.IH" [OF False e] have "m div 10 = n div 10" .
      moreover from d have "m mod 10 = n mod 10" by (auto dest!: digit_char_inj [rotated 2])
      ultimately show ?thesis by (metis div_mult_mod_eq)
    qed
  qed
qed

lemma slot_holds_str:
  "slot_holds (AList.update ''slice_id'' (JStr (str_id (Some a))) pos) m \<longleftrightarrow> m = a"
  by (auto simp: slot_holds_def update_conv' str_id_def dest: str_nat_inj)

lemma set_slice_ids_slots:
  assumes "set_slice_ids l slcs = Inr l'"
      and "map fst slcs = map Some [a..<a + n]"
  shows "length l' = length l \<and> length l \<le> n
       \<and> (\<forall>m. length (filter (\<lambda>pos. slot_holds pos m) l') = (if a \<le> m \<and> m < a + length l then 1 else 0))"
  using assms
proof (induction l slcs arbitrary: l' a n rule: set_slice_ids.induct)
  case (1 slcs)
  then show ?case by auto
next
  case (2 pos l)
  then show ?case by simp
next
  case (3 pos l slc slcs)
  from "3.prems"(1) obtain r where r: "set_slice_ids l slcs = Inr r"
    and l': "l' = AList.update ''slice_id'' (JStr (str_id (fst slc))) pos # r"
    by (auto split: sum.splits)
  from "3.prems"(2) obtain n' where n: "n = Suc n'" by (cases n) auto
  from "3.prems"(2) have f: "fst slc = Some a" and m: "map fst slcs = map Some [Suc a..<Suc a + n']"
    by (simp_all add: n upt_conv_Cons del: upt_Suc)
  from "3.IH" [OF r m] have len: "length r = length l" "length l \<le> n'"
    and cnt: "\<And>m. length (filter (\<lambda>pos. slot_holds pos m) r) =
                 (if Suc a \<le> m \<and> m < Suc a + length l then 1 else 0)"
    by simp_all
  have "length (filter (\<lambda>pos. slot_holds pos m) l') =
          (if a \<le> m \<and> m < a + length (pos # l) then 1 else 0)" for m
    using cnt [of m] by (cases "m = a") (simp_all add: l' f slot_holds_str)
  with len show ?case by (simp add: l' n)
qed

lemma set_slice_ids_ok:
  "length l \<le> length slcs \<Longrightarrow> \<exists>l'. set_slice_ids l slcs = Inr l'"
  by (induction l slcs rule: set_slice_ids.induct) auto

lemma set_slice_ids_short:
  "length slcs < length l \<Longrightarrow> set_slice_ids l slcs = Inl IndexError"
  by (induction l slcs rule: set_slice_ids.induct) auto

lemma map_filter_handles:
  "map fst slcs = map Some ids \<Longrightarrow> List.map_filter fst slcs = ids"
proof (induction slcs arbitrary: ids)
  case Nil
  then show ?case by (simp add: List.map_filter_simps)
next
  case (Cons x xs)
  then show ?case by (cases ids) (auto simp: List.map_filter_simps)
qed

lemma butlast_handles:
  assumes "map fst slcs = map Some [a..<a + n]"
  shows "map fst (butlast slcs) = map Some [a..<a + (n - 1)]"
proof -
  have "map fst (butlast slcs) = butlast (map fst slcs)" by (simp add: map_butlast)
  also have "\<dots> = map Some (butlast [a..<a + n])" by (simp add: assms map_butlast)
  also have "butlast [a..<a + n] = [a..<a + (n - 1)]" by (cases n) simp_all
  finally show ?thesis .
qed

lemma save_dashboard_eq:
  "save_dashboard dash title l slg members w =
     w\<lparr>dashboards := snd (session_add (fst dash, dashboard_row title l slg members) (dashboards w))\<rparr>"
proof -
  have a: "apsnd f x = (fst x, f (snd x))" for f :: "dashboard \<Rightarrow> dashboard" and x
    by (cases x) simp
  have c: "\<And>d a b c e. d\<lparr>dashboard_title := a, position_json := b, slug := c, dash_slices := e\<rparr>
             = \<lparr>dashboard_title = a, slug = c, position_json = b, dash_slices = e\<rparr>"
    by (case_tac d) simp
  show ?thesis
    by (simp add: save_dashboard_def Let_def a c dashboard_row_def split: prod.splits)
qed

lemma save_dashboard_found:
  assumes "dash = (case query_first P (dashboards w) of Some d \<Rightarrow> d | None \<Rightarrow> Dash)"
      and "P (dashboard_row title l slg members)"
  shows "\<exists>i. query_first P (dashboards (save_dashboard dash title l slg members w))
               = Some (Some i, dashboard_row title l slg members)"
    and "count_where P (dashboards (save_dashboard dash title l slg members w)) =
           (if count_where P (dashboards w) = 0 then 1 else count_where P (dashboards w))"
proof -
  obtain o' t' where a: "session_add (fst dash, dashboard_row title l slg members) (dashboards w) = (o', t')"
    by (cases "session_add (fst dash, dashboard_row title l slg members) (dashboards w)")
  have d: "dash = (case query_first P (dashboards w) of Some d \<Rightarrow> d | None \<Rightarrow> (None, snd Dash))"
    by (simp add: assms(1) Dash_def split: option.splits)
  note u = upsert [OF d assms(2) a]
  from u(2,3) obtain i where "o' = (Some i, dashboard_row title l slg members)"
    by (cases o') auto
  with u(1) show "\<exists>i. query_first P (dashboards (save_dashboard dash title l slg members w))
               = Some (Some i, dashboard_row title l slg members)"
    by (simp add: save_dashboard_eq a)
  from u(4) show "count_where P (dashboards (save_dashboard dash title l slg members w)) =
           (if count_where P (dashboards w) = 0 then 1 else count_where P (dashboards w))"
    by (simp add: save_dashboard_eq a)
qed

lemma save_dashboard_frame:
  "slices (save_dashboard dash title l slg members w) = slices w"
  "tables (save_dashboard dash title l slg members w) = tables w"
  "dbs (save_dashboard dash title l slg members w) = dbs w"
  "es_datasources (save_dashboard dash title l slg members w) = es_datasources w"
  "clusters (save_dashboard dash title l slg members w) = clusters w"
  "engine (save_dashboard dash title l slg members w) = engine w"
  "es_indices (save_dashboard dash title l slg members w) = es_indices w"
  "css_templates (save_dashboard dash title l slg members w) = css_templates w"
  by (simp_all add: save_dashboard_eq)

section \<open>The loaders\<close>

lemma es_datasource_ref_frame:
  assumes "es_datasource_ref nm tname description cluster w = (ds, w1)"
  shows "slices w1 = slices w" "dashboards w1 = dashboards w" "css_templates w1 = css_templates w"
    "clusters w1 = clusters w" "tables w1 = tables w" "dbs w1 = dbs w" "engine w1 = engine w"
    "es_indices w1 = es_indices w" "ds_type ds = ''elasticsearch''"
  using assms by (auto simp: es_datasource_ref_def Let_def split: prod.splits)

lemma import_data_es_Inr:
  assumes "import_data e file_name tname description dt (Some cluster) w = Inr (ds, w1)"
  shows "\<exists>data es1 es2. gzip_json_loads e file_name = Inr data
           \<and> indices_delete e (''example-'' @ tname) [404] (es_indices w) = Inr es1
           \<and> es_bulk e (''example-'' @ tname) tname data es1 = Inr es2
           \<and> es_datasource_ref (''example-'' @ tname) tname description cluster (w\<lparr>es_indices := es2\<rparr>) = (ds, w1)"
  using assms by (auto simp: import_data_def Let_def split: sum.splits)

lemma import_data_frame:
  assumes "import_data e file_name tname description dt es_cluster w = Inr (ds, w1)"
  shows "slices w1 = slices w" and "dashboards w1 = dashboards w"
    and "ds_type ds = (if es_cluster = None then ''table'' else ''elasticsearch'')"
proof -
  have "slices w1 = slices w \<and> dashboards w1 = dashboards w
      \<and> ds_type ds = (if es_cluster = None then ''table'' else ''elasticsearch'')"
  proof (cases es_cluster)
    case None
    from import_data_relational_Inr [OF assms [unfolded None]] obtain pdf' where
      t: "table_ref e tname description (w\<lparr>engine := AList.update tname (dt, pdf') (engine w)\<rparr>) = (ds, w1)"
      by blast
    from table_ref_result(1) [OF t] have "ds_type ds = ''table''" by auto
    with table_ref_result(4,5) [OF t] None show ?thesis by simp
  next
    case (Some cluster)
    from import_data_es_Inr [OF assms [unfolded Some]] obtain es2 where
      r: "es_datasource_ref (''example-'' @ tname) tname description cluster (w\<lparr>es_indices := es2\<rparr>) = (ds, w1)"
      by blast
    from es_datasource_ref_frame [OF r] Some show ?thesis by simp
  qed
  then show "slices w1 = slices w" and "dashboards w1 = dashboards w"
    and "ds_type ds = (if es_cluster = None then ''table'' else ''elasticsearch'')"
    by simp_all
qed

lemma slice_key_import:
  assumes "import_data e file_name tname description dt es_cluster w = Inr (ds, w1)"
  shows "slice_key ds sname = (if es_cluster = None then sname else sname @ '' (ES)'')"
  using import_data_frame(3) [OF assms] by (simp add: slice_key_def)

lemma birth_names_sizes:
  "length birth_names_slices = 10" "length birth_names_positions = 9"
  "distinct (map fst birth_names_slices)"
  "map fst birth_names_slices =
     [''Girls'', ''Boys'', ''Participants'', ''Genders'', ''Genders by State'', ''Trends'', ''Title'',
      ''Name Cloud'', ''Pivot Table'', ''Number of Girls'']"
  by (simp_all add: birth_names_slices_def birth_names_positions_def)

lemma world_bank_sizes:
  "length world_bank_slices = 11" "length world_bank_positions = 10"
  "distinct (map fst world_bank_slices)"
  "map fst world_bank_slices =
     [''Region Filter'', ''World'' @ [CHR 0x27] @ ''s Population'', ''Most Populated Countries'',
      ''Growth Rate'', ''% Rural'', ''Life Expexctancy VS Rural %'', ''Rural Breakdown'',
      ''World'' @ [CHR 0x27] @ ''s Pop Growth'', ''Box plot'', ''Treemap'', ''Parallel Coordinates'']"
  by (simp_all add: world_bank_slices_def world_bank_positions_def)

lemma energy_sizes:
  "length energy_slices = 3" "distinct (map fst energy_slices)"
  "map fst energy_slices = [''Energy Sankey'', ''Energy Force Layout'', ''Heatmap'']"
  by (simp_all add: energy_slices_def)

lemma unicode_sizes:
  "length (unicode_slices e) = 1" "distinct (map fst (unicode_slices e))"
  "map fst (unicode_slices e) = [''Unicode Cloud'']"
  by (simp_all add: unicode_slices_def)

lemma random_time_series_sizes:
  "length (random_time_series_slices e) = 1" "distinct (map fst (random_time_series_slices e))"
  "map fst (random_time_series_slices e) = [''Calendar Heatmap'']"
  by (simp_all add: random_time_series_slices_def)

lemma dashboard_tail:
  assumes c: "create_slices ds defaults specs w1 = (slcs, w2)"
      and s: "set_slice_ids positions slcs = Inr l"
      and P: "P (dashboard_row title l slg (butlast slcs))"
      and w': "w' = save_dashboard (case query_first P (dashboards w2) of Some d \<Rightarrow> d | None \<Rightarrow> Dash)
                      title l slg (butlast slcs) w2"
  shows "length (slices w') = length (slices w1) + length specs"
    and "\<exists>i. query_first P (dashboards w') = Some (Some i, dashboard_row title l slg (butlast slcs))"
    and "dash_slices (dashboard_row title l slg (butlast slcs)) =
           [length (slices w1)..<length (slices w1) + (length specs - 1)]"
    and "length l = length positions" and "length positions \<le> length specs"
    and "slots_holding (dashboard_row title l slg (butlast slcs)) m =
           (if length (slices w1) \<le> m \<and> m < length (slices w1) + length positions then 1 else 0)"
    and "distinct (map fst specs) \<Longrightarrow> k < length specs \<Longrightarrow>
           slices w' ! (length (slices w1) + k) = Some (slice_row ds defaults (specs ! k))"
    and "count_where P (dashboards w') =
           (if count_where P (dashboards w2) = 0 then 1 else count_where P (dashboards w2))"
    and "slices w' = slices w2"
proof -
  note h = create_slices_handles [OF c]
  from h show "length (slices w') = length (slices w1) + length specs"
    by (simp add: w' save_dashboard_frame)
  from save_dashboard_found(1) [where P = P and w = w2, OF refl P]
  show "\<exists>i. query_first P (dashboards w') = Some (Some i, dashboard_row title l slg (butlast slcs))"
    unfolding w' .
  from h have f: "map fst slcs = map Some [length (slices w1)..<length (slices w1) + length specs]"
    by simp
  show "dash_slices (dashboard_row title l slg (butlast slcs)) =
           [length (slices w1)..<length (slices w1) + (length specs - 1)]"
    using map_filter_handles [OF butlast_handles [OF f]] by (simp add: dashboard_row_def)
  note t = set_slice_ids_slots [OF s f]
  from t show "length l = length positions" and "length positions \<le> length specs" by simp_all
  from t show "slots_holding (dashboard_row title l slg (butlast slcs)) m =
           (if length (slices w1) \<le> m \<and> m < length (slices w1) + length positions then 1 else 0)"
    by (simp add: slots_holding_def dashboard_row_def)
  show "slices w' ! (length (slices w1) + k) = Some (slice_row ds defaults (specs ! k))"
    if "distinct (map fst specs)" "k < length specs"
    using create_slices_live [OF c that] by (simp add: w' save_dashboard_frame)
  from save_dashboard_found(2) [where P = P and w = w2, OF refl P]
  show "count_where P (dashboards w') =
           (if count_where P (dashboards w2) = 0 then 1 else count_where P (dashboards w2))"
    unfolding w' .
  show "slices w' = slices w2" by (simp add: w' save_dashboard_frame)
qed

lemma load_birth_names_Inr:
  assumes "load_birth_names e es_cluster w = Inr w'"
  shows "\<exists>ds w1 slcs w2 l.
           import_data e ''birth_names.json.gz'' ''birth_names'' [] birth_names_dtype es_cluster w = Inr (ds, w1)
         \<and> create_slices ds (birth_names_defaults e) birth_names_slices w1 = (slcs, w2)
         \<and> set_slice_ids birth_names_positions slcs = Inr l
         \<and> w' = save_dashboard (case query_first (\<lambda>d. dashboard_title d = Some ''Births'') (dashboards w2) of
                                  Some d \<Rightarrow> d | None \<Rightarrow> Dash)
                   ''Births'' l ''births'' (butlast slcs) w2"
  using assms
  by (auto simp: load_birth_names_def Let_def split: sum.splits prod.splits)

lemma load_world_bank_Inr:
  assumes "load_world_bank_health_n_pop e es_cluster w = Inr w'"
  shows "\<exists>description ds w1 slcs w2 l.
           readfile e ''countries.md'' = Inr description
         \<and> import_data e ''countries.json.gz'' ''wb_health_population'' description world_bank_dtype
              es_cluster w = Inr (ds, w1)
         \<and> create_slices ds (world_bank_defaults e) world_bank_slices w1 = (slcs, w2)
         \<and> set_slice_ids world_bank_positions slcs = Inr l
         \<and> w' = save_dashboard (case query_first (\<lambda>d. slug d = Some ''world_health'') (dashboards w2) of
                                  Some d \<Rightarrow> d | None \<Rightarrow> Dash)
                   (''World'' @ [CHR 0x27] @ ''s Bank Data'') l ''world_health'' (butlast slcs) w2"
  using assms
  by (auto simp: load_world_bank_health_n_pop_def Let_def split: sum.splits prod.splits)

lemma load_birth_names_ok:
  assumes "import_data e ''birth_names.json.gz'' ''birth_names'' [] birth_names_dtype es_cluster w = Inr (ds, w1)"
  shows "\<exists>w'. load_birth_names e es_cluster w = Inr w'"
proof -
  obtain slcs w2 where c: "create_slices ds (birth_names_defaults e) birth_names_slices w1 = (slcs, w2)"
    by (cases "create_slices ds (birth_names_defaults e) birth_names_slices w1")
  from create_slices_handles [OF c] have "length slcs = length birth_names_slices"
    by (metis length_map)
  then have "length birth_names_positions \<le> length slcs" by (simp add: birth_names_sizes)
  from set_slice_ids_ok [OF this] obtain l where "set_slice_ids birth_names_positions slcs = Inr l" ..
  then show ?thesis by (simp add: load_birth_names_def assms c)
qed

lemma load_world_bank_ok:
  assumes "readfile e ''countries.md'' = Inr description"
      and "import_data e ''countries.json.gz'' ''wb_health_population'' description world_bank_dtype
             es_cluster w = Inr (ds, w1)"
  shows "\<exists>w'. load_world_bank_health_n_pop e es_cluster w = Inr w'"
proof -
  obtain slcs w2 where c: "create_slices ds (world_bank_defaults e) world_bank_slices w1 = (slcs, w2)"
    by (cases "create_slices ds (world_bank_defaults e) world_bank_slices w1")
  from create_slices_handles [OF c] have "length slcs = length world_bank_slices"
    by (metis length_map)
  then have "length world_bank_positions \<le> length slcs" by (simp add: world_bank_sizes)
  from set_slice_ids_ok [OF this] obtain l where "set_slice_ids world_bank_positions slcs = Inr l" ..
  then show ?thesis by (simp add: load_world_bank_health_n_pop_def assms c)
qed

lemma slice_name_at_live:
  "i < length (slices w) \<Longrightarrow> slices w ! i = Some s \<Longrightarrow> slice_name_at w i = Some (slice_name s)"
  by (simp add: slice_name_at_def)

lemma slice_row_name: "slice_name (slice_row ds defaults spec) = slice_key ds (fst spec)"
  by (cases spec) (simp add: slice_row_def)

lemma birth_names_result:
  assumes "load_birth_names e es_cluster w = Inr w'"
  shows "\<exists>i d. births_dashboard w' = Some (Some i, d) \<and> dashboard_title d = Some ''Births''
           \<and> slug d = Some ''births''
           \<and> dash_slices d = [length (slices w)..<length (slices w) + 9]
           \<and> length (position_json d) = 9
           \<and> (\<forall>m. slots_holding d m = (if length (slices w) \<le> m \<and> m < length (slices w) + 9 then 1 else 0))"
    and "length (slices w') = length (slices w) + 10"
    and "k < 10 \<Longrightarrow> slice_name_at w' (length (slices w) + k) =
           Some (if es_cluster = None then map fst birth_names_slices ! k
                 else (map fst birth_names_slices ! k) @ '' (ES)'')"
proof -
  from load_birth_names_Inr [OF assms] obtain ds w1 slcs w2 l where
    i: "import_data e ''birth_names.json.gz'' ''birth_names'' [] birth_names_dtype es_cluster w = Inr (ds, w1)"
    and c: "create_slices ds (birth_names_defaults e) birth_names_slices w1 = (slcs, w2)"
    and s: "set_slice_ids birth_names_positions slcs = Inr l"
    and w': "w' = save_dashboard (case query_first (\<lambda>d. dashboard_title d = Some ''Births'') (dashboards w2) of
                                  Some d \<Rightarrow> d | None \<Rightarrow> Dash)
                   ''Births'' l ''births'' (butlast slcs) w2"
    by blast
  have P: "(\<lambda>d. dashboard_title d = Some ''Births'') (dashboard_row ''Births'' l ''births'' (butlast slcs))"
    by (simp add: dashboard_row_def)
  note t = dashboard_tail [where P = "\<lambda>d. dashboard_title d = Some ''Births''", OF c s P w']
  have len: "length (slices w1) = length (slices w)" by (simp add: import_data_frame(1) [OF i])
  from t(2) obtain j where
    q: "births_dashboard w' = Some (Some j, dashboard_row ''Births'' l ''births'' (butlast slcs))"
    unfolding births_dashboard_def by blast
  show "\<exists>i d. births_dashboard w' = Some (Some i, d) \<and> dashboard_title d = Some ''Births''
           \<and> slug d = Some ''births''
           \<and> dash_slices d = [length (slices w)..<length (slices w) + 9]
           \<and> length (position_json d) = 9
           \<and> (\<forall>m. slots_holding d m = (if length (slices w) \<le> m \<and> m < length (slices w) + 9 then 1 else 0))"
  proof (intro exI conjI allI)
    show "births_dashboard w' = Some (Some j, dashboard_row ''Births'' l ''births'' (butlast slcs))"
      by (rule q)
    show "dashboard_title (dashboard_row ''Births'' l ''births'' (butlast slcs)) = Some ''Births''"
      and "slug (dashboard_row ''Births'' l ''births'' (butlast slcs)) = Some ''births''"
      by (simp_all add: dashboard_row_def)
    show "dash_slices (dashboard_row ''Births'' l ''births'' (butlast slcs)) =
            [length (slices w)..<length (slices w) + 9]"
      using t(3) by (simp add: len birth_names_sizes)
    show "length (position_json (dashboard_row ''Births'' l ''births'' (butlast slcs))) = 9"
      using t(4) by (simp add: dashboard_row_def birth_names_sizes)
    show "slots_holding (dashboard_row ''Births'' l ''births'' (butlast slcs)) m =
            (if length (slices w) \<le> m \<and> m < length (slices w) + 9 then 1 else 0)" for m
      using t(6) [of m] by (simp add: len birth_names_sizes)
  qed
  show l': "length (slices w') = length (slices w) + 10"
    using t(1) by (simp add: len birth_names_sizes)
  show "slice_name_at w' (length (slices w) + k) =
           Some (if es_cluster = None then map fst birth_names_slices ! k
                 else (map fst birth_names_slices ! k) @ '' (ES)'')" if "k < 10"
  proof -
    from that have k: "k < length birth_names_slices" by (simp add: birth_names_sizes)
    from t(7) [OF birth_names_sizes(3) k]
    have "slices w' ! (length (slices w) + k) =
            Some (slice_row ds (birth_names_defaults e) (birth_names_slices ! k))"
      by (simp add: len)
    from slice_name_at_live [OF _ this] l' that
    show ?thesis by (simp add: slice_row_name slice_key_import [OF i] k)
  qed
qed

lemma world_bank_result:
  assumes "load_world_bank_health_n_pop e es_cluster w = Inr w'"
  shows "\<exists>i d. world_health_dashboard w' = Some (Some i, d)
           \<and> dashboard_title d = Some (''World'' @ [CHR 0x27] @ ''s Bank Data'')
           \<and> slug d = Some ''world_health''
           \<and> dash_slices d = [length (slices w)..<length (slices w) + 10]
           \<and> length (position_json d) = 10
           \<and> (\<forall>m. slots_holding d m = (if length (slices w) \<le> m \<and> m < length (slices w) + 10 then 1 else 0))"
    and "length (slices w') = length (slices w) + 11"
    and "k < 11 \<Longrightarrow> slice_name_at w' (length (slices w) + k) =
           Some (if es_cluster = None then map fst world_bank_slices ! k
                 else (map fst world_bank_slices ! k) @ '' (ES)'')"
proof -
  let ?title = "''World'' @ [CHR 0x27] @ ''s Bank Data''"
  from load_world_bank_Inr [OF assms] obtain description ds w1 slcs w2 l where
    i: "import_data e ''countries.json.gz'' ''wb_health_population'' description world_bank_dtype
              es_cluster w = Inr (ds, w1)"
    and c: "create_slices ds (world_bank_defaults e) world_bank_slices w1 = (slcs, w2)"
    and s: "set_slice_ids world_bank_positions slcs = Inr l"
    and w': "w' = save_dashboard (case query_first (\<lambda>d. slug d = Some ''world_health'') (dashboards w2) of
                                  Some d \<Rightarrow> d | None \<Rightarrow> Dash)
                   ?title l ''world_health'' (butlast slcs) w2"
    by blast
  have P: "(\<lambda>d. slug d = Some ''world_health'') (dashboard_row ?title l ''world_health'' (butlast slcs))"
    by (simp add: dashboard_row_def)
  note t = dashboard_tail [where P = "\<lambda>d. slug d = Some ''world_health''", OF c s P w']
  have len: "length (slices w1) = length (slices w)" by (simp add: import_data_frame(1) [OF i])
  from t(2) obtain j where
    q: "world_health_dashboard w' = Some (Some j, dashboard_row ?title l ''world_health'' (butlast slcs))"
    unfolding world_health_dashboard_def by blast
  show "\<exists>i d. world_health_dashboard w' = Some (Some i, d)
           \<and> dashboard_title d = Some ?title
           \<and> slug d = Some ''world_health''
           \<and> dash_slices d = [length (slices w)..<length (slices w) + 10]
           \<and> length (position_json d) = 10
           \<and> (\<forall>m. slots_holding d m = (if length (slices w) \<le> m \<and> m < length (slices w) + 10 then 1 else 0))"
  proof (intro exI conjI allI)
    show "world_health_dashboard w' = Some (Some j, dashboard_row ?title l ''world_health'' (butlast slcs))"
      by (rule q)
    show "dashboard_title (dashboard_row ?title l ''world_health'' (butlast slcs)) = Some ?title"
      and "slug (dashboard_row ?title l ''world_health'' (butlast slcs)) = Some ''world_health''"
      by (simp_all add: dashboard_row_def)
    show "dash_slices (dashboard_row ?title l ''world_health'' (butlast slcs)) =
            [length (slices w)..<length (slices w) + 10]"
      using t(3) by (simp add: len world_bank_sizes)
    show "length (position_json (dashboard_row ?title l ''world_health'' (butlast slcs))) = 10"
      using t(4) by (simp add: dashboard_row_def world_bank_sizes)
    show "slots_holding (dashboard_row ?title l ''world_health'' (butlast slcs)) m =
            (if length (slices w) \<le> m \<and> m < length (slices w) + 10 then 1 else 0)" for m
      using t(6) [of m] by (simp add: len world_bank_sizes)
  qed
  show l': "length (slices w') = length (slices w) + 11"
    using t(1) by (simp add: len world_bank_sizes)
  show "slice_name_at w' (length (slices w) + k) =
           Some (if es_cluster = None then map fst world_bank_slices ! k
                 else (map fst world_bank_slices ! k) @ '' (ES)'')" if "k < 11"
  proof -
    from that have k: "k < length world_bank_slices" by (simp add: world_bank_sizes)
    from t(7) [OF world_bank_sizes(3) k]
    have "slices w' ! (length (slices w) + k) =
            Some (slice_row ds (world_bank_defaults e) (world_bank_slices ! k))"
      by (simp add: len)
    from slice_name_at_live [OF _ this] l' that
    show ?thesis by (simp add: slice_row_name slice_key_import [OF i] k)
  qed
qed

lemma load_unicode_Inr:
  assumes "load_unicode_test_data e es_cluster w = Inr w'"
  shows "\<exists>df dbobj wdb obj t slcs w2.
           pd_read_csv e ''unicode_utf8_unixnl_test.csv'' = Inr df
         \<and> to_sql_fault e = None
         \<and> get_or_create_db e (w\<lparr>engine := AList.update ''unicode_test'' (unicode_dtype, unicode_frame e df) (engine w)\<rparr>)
             = (dbobj, wdb)
         \<and> session_add
              (fst (case query_first (\<lambda>t. table_name t = ''unicode_test'') (tables w) of
                      Some t \<Rightarrow> t | None \<Rightarrow> TBL ''unicode_test''),
               unicode_table_columns (fst dbobj)
                 (snd (case query_first (\<lambda>t. table_name t = ''unicode_test'') (tables w) of
                         Some t \<Rightarrow> t | None \<Rightarrow> TBL ''unicode_test'')))
              (tables w) = (obj, t)
         \<and> create_slices (SqlaTable obj) [] (unicode_slices e) (wdb\<lparr>tables := t\<rparr>) = (slcs, w2)
         \<and> w' = save_dashboard
                   (case query_first (\<lambda>d. dashboard_title d = Some ''Unicode Test'') (dashboards w2) of
                      Some d \<Rightarrow> d | None \<Rightarrow> Dash)
                   ''Unicode Test''
                   (map (\<lambda>slc. [(''size_y'', JInt 4), (''size_x'', JInt 4), (''col'', JInt 1),
                                  (''row'', JInt 1), (''slice_id'', json_id (fst slc))]) slcs)
                   ''unicode-test'' slcs w2"
proof -
  from assms obtain df eng where df: "pd_read_csv e ''unicode_utf8_unixnl_test.csv'' = Inr df"
    and eng: "to_sql e ''unicode_test'' unicode_dtype (unicode_frame e df) (engine w) = Inr eng"
    by (auto simp: load_unicode_test_data_def split: sum.splits)
  from eng have f: "to_sql_fault e = None"
    and eng': "eng = AList.update ''unicode_test'' (unicode_dtype, unicode_frame e df) (engine w)"
    by (auto simp: to_sql_def split: option.splits)
  obtain dbobj wdb where g: "get_or_create_db e (w\<lparr>engine := eng\<rparr>) = (dbobj, wdb)"
    by (cases "get_or_create_db e (w\<lparr>engine := eng\<rparr>)")
  have tw: "tables wdb = tables w" using get_or_create_db_frame(1) [OF g] by simp
  let ?o = "case query_first (\<lambda>t. table_name t = ''unicode_test'') (tables w) of
              Some t \<Rightarrow> t | None \<Rightarrow> TBL ''unicode_test''"
  obtain obj t where a: "session_add (fst ?o, unicode_table_columns (fst dbobj) (snd ?o)) (tables w) = (obj, t)"
    by (cases "session_add (fst ?o, unicode_table_columns (fst dbobj) (snd ?o)) (tables w)")
  obtain slcs w2 where c: "create_slices (SqlaTable obj) [] (unicode_slices e) (wdb\<lparr>tables := t\<rparr>) = (slcs, w2)"
    by (cases "create_slices (SqlaTable obj) [] (unicode_slices e) (wdb\<lparr>tables := t\<rparr>)")
  have ap: "apsnd h x = (fst x, h (snd x))" for h :: "sqla_table \<Rightarrow> sqla_table" and x
    by (cases x) simp
  from assms have "w' = save_dashboard
                   (case query_first (\<lambda>d. dashboard_title d = Some ''Unicode Test'') (dashboards w2) of
                      Some d \<Rightarrow> d | None \<Rightarrow> Dash)
                   ''Unicode Test''
                   (map (\<lambda>slc. [(''size_y'', JInt 4), (''size_x'', JInt 4), (''col'', JInt 1),
                                  (''row'', JInt 1), (''slice_id'', json_id (fst slc))]) slcs)
                   ''unicode-test'' slcs w2"
    using a c
    by (simp add: load_unicode_test_data_def df eng Let_def g tw ap unicode_table_columns_def)
  with df f g a c show ?thesis unfolding eng' by blast
qed

lemma unicode_result:
  assumes "load_unicode_test_data e es_cluster w = Inr w'"
  shows "\<exists>i d. unicode_dashboard w' = Some (Some i, d) \<and> dashboard_title d = Some ''Unicode Test''
           \<and> slug d = Some ''unicode-test''
           \<and> dash_slices d = [length (slices w)]
           \<and> length (position_json d) = 1
           \<and> (\<forall>m. slots_holding d m = (if m = length (slices w) then 1 else 0))"
    and "length (slices w') = length (slices w) + 1"
    and "slice_name_at w' (length (slices w)) = Some ''Unicode Cloud''"
proof -
  let ?pos = "\<lambda>slc :: slice obj. [(''size_y'', JInt 4), (''size_x'', JInt 4), (''col'', JInt 1),
                                  (''row'', JInt 1), (''slice_id'', json_id (fst slc))]"
  from load_unicode_Inr [OF assms] obtain df dbobj wdb obj t slcs w2 where
    g: "get_or_create_db e (w\<lparr>engine := AList.update ''unicode_test'' (unicode_dtype, unicode_frame e df) (engine w)\<rparr>)
             = (dbobj, wdb)"
    and c: "create_slices (SqlaTable obj) [] (unicode_slices e) (wdb\<lparr>tables := t\<rparr>) = (slcs, w2)"
    and w': "w' = save_dashboard
                   (case query_first (\<lambda>d. dashboard_title d = Some ''Unicode Test'') (dashboards w2) of
                      Some d \<Rightarrow> d | None \<Rightarrow> Dash)
                   ''Unicode Test'' (map ?pos slcs) ''unicode-test'' slcs w2"
    by blast
  have len: "length (slices (wdb\<lparr>tables := t\<rparr>)) = length (slices w)"
    using get_or_create_db_frame(2) [OF g] by simp
  note h = create_slices_handles [OF c, unfolded len]
  from h have "map fst slcs = [Some (length (slices w))]" by (simp add: unicode_sizes)
  then obtain r where slcs: "slcs = [(Some (length (slices w)), r)]"
    by (cases slcs) auto
  let ?row = "dashboard_row ''Unicode Test'' (map ?pos slcs) ''unicode-test'' slcs"
  have P: "(\<lambda>d. dashboard_title d = Some ''Unicode Test'') ?row"
    by (simp add: dashboard_row_def)
  from save_dashboard_found(1) [where P = "\<lambda>d. dashboard_title d = Some ''Unicode Test''" and w = w2, OF refl P]
  obtain j where q: "unicode_dashboard w' = Some (Some j, ?row)"
    unfolding unicode_dashboard_def w' by blast
  have sl: "slots_holding ?row m = (if m = length (slices w) then 1 else 0)" for m
    by (auto simp: slots_holding_def dashboard_row_def slcs slot_holds_def json_id_def)
  show "\<exists>i d. unicode_dashboard w' = Some (Some i, d) \<and> dashboard_title d = Some ''Unicode Test''
           \<and> slug d = Some ''unicode-test''
           \<and> dash_slices d = [length (slices w)]
           \<and> length (position_json d) = 1
           \<and> (\<forall>m. slots_holding d m = (if m = length (slices w) then 1 else 0))"
  proof (intro exI conjI allI)
    show "unicode_dashboard w' = Some (Some j, ?row)" by (rule q)
    show "dashboard_title ?row = Some ''Unicode Test''" and "slug ?row = Some ''unicode-test''"
      and "length (position_json ?row) = 1"
      by (simp_all add: dashboard_row_def slcs)
    show "dash_slices ?row = [length (slices w)]"
      by (simp add: dashboard_row_def slcs List.map_filter_simps)
    show "slots_holding ?row m = (if m = length (slices w) then 1 else 0)" for m by (rule sl)
  qed
  show l': "length (slices w') = length (slices w) + 1"
    using h by (simp add: w' save_dashboard_frame unicode_sizes)
  have "0 < length (unicode_slices e)" by (simp add: unicode_sizes)
  from create_slices_live [OF c unicode_sizes(2) this]
  have "slices w' ! length (slices w) = Some (slice_row (SqlaTable obj) [] (unicode_slices e ! 0))"
    using len by (simp add: w' save_dashboard_frame)
  from slice_name_at_live [OF _ this] l'
  show "slice_name_at w' (length (slices w)) = Some ''Unicode Cloud''"
    by (simp add: slice_row_name slice_key_def unicode_slices_def)
qed

lemma load_unicode_ok:
  assumes "pd_read_csv e ''unicode_utf8_unixnl_test.csv'' = Inr df" and "to_sql_fault e = None"
  shows "\<exists>w'. load_unicode_test_data e es_cluster w = Inr w'"
  using assms
  by (simp add: load_unicode_test_data_def to_sql_def Let_def split: prod.splits)

lemma sample_unicode: "\<exists>w'. load_unicode_test_data sample_env None empty_world = Inr w'"
  by (rule load_unicode_ok) (simp_all add: sample_env_def)

section \<open>The dashboards of the loaders\<close>

lemma sample_read: "pd_read_json sample_env f = Inr sample_frame" "to_sql_fault sample_env = None"
  "readfile sample_env f = Inr ''Countries''"
  by (simp_all add: sample_env_def)

lemma sample_coerce: "\<exists>pdf'. coerce_dates tname (rename_columns sample_frame) = Inr pdf'"
  by (simp add: coerce_dates_def rename_columns_def sample_frame_def get_column_def)

lemma sample_import_ok:
  "\<exists>ds w1. import_data sample_env file_name tname description dt None w = Inr (ds, w1)"
proof -
  from sample_coerce obtain pdf' where "coerce_dates tname (rename_columns sample_frame) = Inr pdf'" ..
  from import_data_relational [OF sample_read(1) this sample_read(2)] show ?thesis
    by (metis surj_pair)
qed

lemma sample_births: "\<exists>w'. load_birth_names sample_env None empty_world = Inr w'"
  using sample_import_ok load_birth_names_ok by blast

lemma sample_world_bank: "\<exists>w'. load_world_bank_health_n_pop sample_env None empty_world = Inr w'"
  using sample_import_ok load_world_bank_ok [OF sample_read(3)] by blast

lemma empty_slices: "slices empty_world = []"
  by (simp add: empty_world_def)

text \<open>
  Claim C1, as amended. \<^verbatim>\<open>load_birth_names\<close> creates ten slices; the dashboard found under the
  title \<^verbatim>\<open>Births\<close> has the slug \<^verbatim>\<open>births\<close> and the first nine of them as members, and the
  tenth, \<^verbatim>\<open>Number of Girls\<close> (with the suffix of the search-cluster path, if that is taken), is
  the one left out.
\<close>

theorem births_dashboard_members:
  assumes "load_birth_names e es_cluster w = Inr w'"
  shows "length (slices w') = length (slices w) + 10
       \<and> (\<exists>i d. births_dashboard w' = Some (Some i, d) \<and> slug d = Some ''births''
             \<and> dash_slices d = [length (slices w)..<length (slices w) + 9]
             \<and> length (slices w) + 9 \<notin> set (dash_slices d))
       \<and> slice_name_at w' (length (slices w) + 9) =
           Some (if es_cluster = None then ''Number of Girls'' else ''Number of Girls (ES)'')"
proof -
  from birth_names_result(1) [OF assms] obtain i d where
    d: "births_dashboard w' = Some (Some i, d)" "slug d = Some ''births''"
       "dash_slices d = [length (slices w)..<length (slices w) + 9]" by blast
  then have "\<exists>i d. births_dashboard w' = Some (Some i, d) \<and> slug d = Some ''births''
             \<and> dash_slices d = [length (slices w)..<length (slices w) + 9]
             \<and> length (slices w) + 9 \<notin> set (dash_slices d)"
    by simp
  moreover have "slice_name_at w' (length (slices w) + 9) =
           Some (if es_cluster = None then ''Number of Girls'' else ''Number of Girls (ES)'')"
    using birth_names_result(3) [OF assms, of 9] by (simp add: birth_names_sizes)
  ultimately show ?thesis using birth_names_result(2) [OF assms] by blast
qed

text \<open>The amended claim C1 on a fresh store.\<close>

theorem births_dashboard_members_witness:
  "length (slices (projr (load_birth_names sample_env None empty_world))) = 10
   \<and> map_option (dash_slices \<circ> snd) (births_dashboard (projr (load_birth_names sample_env None empty_world)))
       = Some [0, 1, 2, 3, 4, 5, 6, 7, 8]
   \<and> slice_name_at (projr (load_birth_names sample_env None empty_world)) 9 = Some ''Number of Girls''"
proof -
  from sample_births obtain w' where w': "load_birth_names sample_env None empty_world = Inr w'" ..
  have u: "[0..<9] = [0, 1, 2, 3, 4, 5, 6, 7, 8::nat]" by (simp add: upt_rec)
  from births_dashboard_members [OF w'] show ?thesis
    by (auto simp: w' empty_slices u)
qed

text \<open>
  Claim C1 as stated fails: on a fresh store the loader creates ten slices, not nine, and the
  dashboard has nine members, not eight.
\<close>

theorem births_dashboard_counterexample:
  "length (slices (projr (load_birth_names sample_env None empty_world))) = 10
   \<and> map_option (length \<circ> dash_slices \<circ> snd)
        (births_dashboard (projr (load_birth_names sample_env None empty_world))) = Some 9
   \<and> \<not> (length (slices (projr (load_birth_names sample_env None empty_world))) = 9
        \<and> map_option (length \<circ> dash_slices \<circ> snd)
             (births_dashboard (projr (load_birth_names sample_env None empty_world))) = Some 8)"
proof -
  from sample_births obtain w' where w': "load_birth_names sample_env None empty_world = Inr w'" ..
  from birth_names_result(1,2) [OF w'] show ?thesis
    by (auto simp: w' empty_slices)
qed

text \<open>
  Claim C7, as amended. In two of the three dashboard loaders, the one of the world bank data
  and the one of the birth names, the last slice created is left out of the membership of the
  dashboard, and no slot of the persisted layout holds its identifier: the layout has one slot
  for each member and none for the last slice.
\<close>

theorem last_slice_left_out:
  "(load_world_bank_health_n_pop e es_cluster w = Inr w' \<longrightarrow>
      (\<exists>i d. world_health_dashboard w' = Some (Some i, d)
         \<and> length (slices w') = length (slices w) + 11
         \<and> slice_name_at w' (length (slices w) + 10) =
              Some (if es_cluster = None then ''Parallel Coordinates'' else ''Parallel Coordinates (ES)'')
         \<and> length (slices w) + 10 \<notin> set (dash_slices d)
         \<and> slots_holding d (length (slices w) + 10) = 0
         \<and> length (position_json d) = length (dash_slices d)))
 \<and> (load_birth_names e es_cluster w = Inr w' \<longrightarrow>
      (\<exists>i d. births_dashboard w' = Some (Some i, d)
         \<and> length (slices w') = length (slices w) + 10
         \<and> slice_name_at w' (length (slices w) + 9) =
              Some (if es_cluster = None then ''Number of Girls'' else ''Number of Girls (ES)'')
         \<and> length (slices w) + 9 \<notin> set (dash_slices d)
         \<and> slots_holding d (length (slices w) + 9) = 0
         \<and> length (position_json d) = length (dash_slices d)))"
proof (intro conjI impI)
  assume a: "load_world_bank_health_n_pop e es_cluster w = Inr w'"
  from world_bank_result(1) [OF a] obtain i d where
    d: "world_health_dashboard w' = Some (Some i, d)"
       "dash_slices d = [length (slices w)..<length (slices w) + 10]"
       "length (position_json d) = 10"
       "\<And>m. slots_holding d m = (if length (slices w) \<le> m \<and> m < length (slices w) + 10 then 1 else 0)"
    by blast
  have n: "slice_name_at w' (length (slices w) + 10) =
              Some (if es_cluster = None then ''Parallel Coordinates'' else ''Parallel Coordinates (ES)'')"
    using world_bank_result(3) [OF a, of 10] by (simp add: world_bank_sizes)
  from d n world_bank_result(2) [OF a]
  show "\<exists>i d. world_health_dashboard w' = Some (Some i, d)
         \<and> length (slices w') = length (slices w) + 11
         \<and> slice_name_at w' (length (slices w) + 10) =
              Some (if es_cluster = None then ''Parallel Coordinates'' else ''Parallel Coordinates (ES)'')
         \<and> length (slices w) + 10 \<notin> set (dash_slices d)
         \<and> slots_holding d (length (slices w) + 10) = 0
         \<and> length (position_json d) = length (dash_slices d)"
    by simp
next
  assume a: "load_birth_names e es_cluster w = Inr w'"
  from birth_names_result(1) [OF a] obtain i d where
    d: "births_dashboard w' = Some (Some i, d)"
       "dash_slices d = [length (slices w)..<length (slices w) + 9]"
       "length (position_json d) = 9"
       "\<And>m. slots_holding d m = (if length (slices w) \<le> m \<and> m < length (slices w) + 9 then 1 else 0)"
    by blast
  have n: "slice_name_at w' (length (slices w) + 9) =
              Some (if es_cluster = None then ''Number of Girls'' else ''Number of Girls (ES)'')"
    using birth_names_result(3) [OF a, of 9] by (simp add: birth_names_sizes)
  from d n birth_names_result(2) [OF a]
  show "\<exists>i d. births_dashboard w' = Some (Some i, d)
         \<and> length (slices w') = length (slices w) + 10
         \<and> slice_name_at w' (length (slices w) + 9) =
              Some (if es_cluster = None then ''Number of Girls'' else ''Number of Girls (ES)'')
         \<and> length (slices w) + 9 \<notin> set (dash_slices d)
         \<and> slots_holding d (length (slices w) + 9) = 0
         \<and> length (position_json d) = length (dash_slices d)"
    by simp
qed

text \<open>The amended claim C7 on a fresh store, for either loader.\<close>

theorem last_slice_left_out_witness:
  "slice_name_at (projr (load_world_bank_health_n_pop sample_env None empty_world)) 10
     = Some ''Parallel Coordinates''
   \<and> found_slots_holding (world_health_dashboard (projr (load_world_bank_health_n_pop sample_env None empty_world))) 10
     = Some 0
   \<and> slice_name_at (projr (load_birth_names sample_env None empty_world)) 9 = Some ''Number of Girls''
   \<and> found_slots_holding (births_dashboard (projr (load_birth_names sample_env None empty_world))) 9
     = Some 0"
proof -
  from sample_world_bank obtain wb where wb: "load_world_bank_health_n_pop sample_env None empty_world = Inr wb" ..
  from sample_births obtain bn where bn: "load_birth_names sample_env None empty_world = Inr bn" ..
  from last_slice_left_out [of sample_env None empty_world wb] wb
       last_slice_left_out [of sample_env None empty_world bn] bn
  show ?thesis
    by (auto simp: empty_slices found_slots_holding_def)
qed

text \<open>
  Claim C7 as stated fails in each of the three dashboard loaders: on a fresh store the
  identifier of the last slice of the world bank loader and of the birth names loader is held
  by no slot, and the only slice of the unicode loader is a member of its dashboard.
\<close>

theorem last_slice_in_layout_counterexample:
  "slice_name_at (projr (load_world_bank_health_n_pop sample_env None empty_world)) 10
     = Some ''Parallel Coordinates''
   \<and> length (slices (projr (load_world_bank_health_n_pop sample_env None empty_world))) = 11
   \<and> found_slots_holding (world_health_dashboard (projr (load_world_bank_health_n_pop sample_env None empty_world))) 10
     = Some 0
   \<and> slice_name_at (projr (load_birth_names sample_env None empty_world)) 9 = Some ''Number of Girls''
   \<and> length (slices (projr (load_birth_names sample_env None empty_world))) = 10
   \<and> found_slots_holding (births_dashboard (projr (load_birth_names sample_env None empty_world))) 9
     = Some 0
   \<and> length (slices (projr (load_unicode_test_data sample_env None empty_world))) = 1
   \<and> found_members (unicode_dashboard (projr (load_unicode_test_data sample_env None empty_world)))
     = Some [0]"
proof -
  from sample_world_bank obtain wb where wb: "load_world_bank_health_n_pop sample_env None empty_world = Inr wb" ..
  from sample_births obtain bn where bn: "load_birth_names sample_env None empty_world = Inr bn" ..
  from sample_unicode obtain u where u: "load_unicode_test_data sample_env None empty_world = Inr u" ..
  have 1: "slice_name_at wb 10 = Some ''Parallel Coordinates''"
    using world_bank_result(3) [OF wb, of 10] by (simp add: world_bank_sizes empty_slices)
  have 2: "slice_name_at bn 9 = Some ''Number of Girls''"
    using birth_names_result(3) [OF bn, of 9] by (simp add: birth_names_sizes empty_slices)
  have 3: "found_slots_holding (world_health_dashboard wb) 10 = Some 0"
    using world_bank_result(1) [OF wb] by (auto simp: found_slots_holding_def empty_slices)
  have 4: "found_slots_holding (births_dashboard bn) 9 = Some 0"
    using birth_names_result(1) [OF bn] by (auto simp: found_slots_holding_def empty_slices)
  have 5: "found_members (unicode_dashboard u) = Some [0]"
    using unicode_result(1) [OF u] by (auto simp: found_members_def empty_slices)
  from 1 2 3 4 5 world_bank_result(2) [OF wb] birth_names_result(2) [OF bn] unicode_result(2) [OF u]
  show ?thesis by (simp add: wb bn u empty_slices)
qed

text \<open>
  Claim C6. For each of the three dashboard loaders, the dashboard that the loader leaves
  behind has at least as many layout slots as members, and the identifier of every member is
  held by exactly one slot.
\<close>

theorem layout_covers_membership:
  "(load_world_bank_health_n_pop e es_cluster w = Inr w' \<longrightarrow>
      (\<exists>i d. world_health_dashboard w' = Some (Some i, d) \<and> layout_covers_members d))
 \<and> (load_birth_names e es_cluster w = Inr w' \<longrightarrow>
      (\<exists>i d. births_dashboard w' = Some (Some i, d) \<and> layout_covers_members d))
 \<and> (load_unicode_test_data e es_cluster w = Inr w' \<longrightarrow>
      (\<exists>i d. unicode_dashboard w' = Some (Some i, d) \<and> layout_covers_members d))"
proof (intro conjI impI)
  assume a: "load_world_bank_health_n_pop e es_cluster w = Inr w'"
  from world_bank_result(1) [OF a]
  show "\<exists>i d. world_health_dashboard w' = Some (Some i, d) \<and> layout_covers_members d"
    by (auto simp: layout_covers_members_def)
next
  assume a: "load_birth_names e es_cluster w = Inr w'"
  from birth_names_result(1) [OF a]
  show "\<exists>i d. births_dashboard w' = Some (Some i, d) \<and> layout_covers_members d"
    by (auto simp: layout_covers_members_def)
next
  assume a: "load_unicode_test_data e es_cluster w = Inr w'"
  from unicode_result(1) [OF a]
  show "\<exists>i d. unicode_dashboard w' = Some (Some i, d) \<and> layout_covers_members d"
    by (auto simp: layout_covers_members_def)
qed

text \<open>
  Claim C6 on a fresh store: the dashboards of the three loaders satisfy the invariant, and a
  member of each is held by exactly one slot.
\<close>

theorem layout_covers_membership_witness:
  "found_slots_holding (world_health_dashboard (projr (load_world_bank_health_n_pop sample_env None empty_world))) 3
     = Some 1
   \<and> found_slots_holding (births_dashboard (projr (load_birth_names sample_env None empty_world))) 8
     = Some 1
   \<and> found_slots_holding (unicode_dashboard (projr (load_unicode_test_data sample_env None empty_world))) 0
     = Some 1"
proof -
  from sample_world_bank obtain wb where wb: "load_world_bank_health_n_pop sample_env None empty_world = Inr wb" ..
  from sample_births obtain bn where bn: "load_birth_names sample_env None empty_world = Inr bn" ..
  from sample_unicode obtain u where u: "load_unicode_test_data sample_env None empty_world = Inr u" ..
  have m: "3 \<in> set (the (found_members (world_health_dashboard wb)))"
          "8 \<in> set (the (found_members (births_dashboard bn)))"
          "0 \<in> set (the (found_members (unicode_dashboard u)))"
    using world_bank_result(1) [OF wb] birth_names_result(1) [OF bn] unicode_result(1) [OF u]
    by (auto simp: found_members_def empty_slices)
  from layout_covers_membership [of sample_env None empty_world wb]
       layout_covers_membership [of sample_env None empty_world bn]
       layout_covers_membership [of sample_env None empty_world u] wb bn u m
  show ?thesis
    by (auto simp: found_slots_holding_def found_members_def layout_covers_members_def)
qed

section \<open>Running a loader twice\<close>

lemma count_where_live:
  "count_where P t = length (filter P (List.map_filter (\<lambda>x. x) t))"
  by (induction t) (auto simp: count_where_def List.map_filter_simps split: option.splits)

lemma slice_count_named: "slice_count w n = length (slices_named w n)"
  by (simp add: slice_count_def slices_named_def live_slices_def count_where_live)

lemma live_slices_count: "length (live_slices w) = count_where (\<lambda>s. True) (slices w)"
  by (simp add: live_slices_def count_where_live)

lemma slices_named_single:
  assumes "slice_count w n = 1" and "i < length (slices w)" and "slices w ! i = Some s"
      and "slice_name s = n"
  shows "slices_named w n = [s]"
proof -
  have "Some s \<in> set (slices w)" using assms(2,3) by (metis nth_mem)
  hence "s \<in> set (slices_named w n)"
    by (auto simp: slices_named_def live_slices_def List.map_filter_def assms(4) intro!: image_eqI [where x = "Some s"])
  moreover have "length (slices_named w n) = 1" using assms(1) by (simp add: slice_count_named)
  ultimately show ?thesis by (cases "slices_named w n") auto
qed

lemma load_energy_Inr:
  assumes "load_energy e es_cluster w = Inr w'"
  shows "\<exists>ds w1 slcs.
           import_data e ''energy.json.gz'' ''energy_usage'' ''Energy consumption'' energy_dtype es_cluster w
             = Inr (ds, w1)
         \<and> create_slices ds [] energy_slices w1 = (slcs, w')"
  using assms by (auto simp: load_energy_def split: sum.splits prod.splits) (metis prod.collapse)

lemma load_energy_ok:
  assumes "import_data e ''energy.json.gz'' ''energy_usage'' ''Energy consumption'' energy_dtype es_cluster w
             = Inr (ds, w1)"
  shows "\<exists>w'. load_energy e es_cluster w = Inr w'"
  using assms by (simp add: load_energy_def)

lemma slice_names_key:
  assumes "import_data e file_name tname description dt es_cluster w = Inr (ds, w1)"
  shows "slice_names es_cluster specs = map (\<lambda>spec. slice_key ds (fst spec)) specs"
  by (simp add: slice_names_def slice_key_import [OF assms])

lemma import_slices_census:
  assumes i: "import_data e file_name tname description dt es_cluster w = Inr (ds, w1)"
      and s: "create_slices ds defaults specs w1 = (slcs, w2)"
      and d: "distinct (map fst specs)"
  shows "slice_count w2 n =
           (if n \<in> set (slice_names es_cluster specs) \<and> slice_count w n = 0 then 1 else slice_count w n)"
    and "length (live_slices w2) =
           length (live_slices w) + length (filter (\<lambda>n. slice_count w n = 0) (slice_names es_cluster specs))"
    and "length (slices w2) = length (slices w) + length specs"
    and "k < length specs \<Longrightarrow> slices w2 ! (length (slices w) + k) = Some (slice_row ds defaults (specs ! k))"
    and "k < length specs \<Longrightarrow> slice_name (slice_row ds defaults (specs ! k)) = slice_names es_cluster specs ! k"
proof -
  note f = import_data_frame(1) [OF i]
  note nk = slice_names_key [OF i, of specs]
  have im: "slice_key ds ` fst ` set specs = set (slice_names es_cluster specs)"
    by (auto simp: nk)
  show "slice_count w2 n =
           (if n \<in> set (slice_names es_cluster specs) \<and> slice_count w n = 0 then 1 else slice_count w n)"
    using create_slices_count [OF s d, of n] by (simp add: slice_count_def f im)
  show "length (live_slices w2) =
           length (live_slices w) + length (filter (\<lambda>n. slice_count w n = 0) (slice_names es_cluster specs))"
    using create_slices_total [OF s d]
    by (simp add: live_slices_count f nk filter_map comp_def slice_count_def)
  show "length (slices w2) = length (slices w) + length specs"
    using create_slices_handles [OF s] by (simp add: f)
  show "k < length specs \<Longrightarrow> slices w2 ! (length (slices w) + k) = Some (slice_row ds defaults (specs ! k))"
    using create_slices_live [OF s d, of k] by (simp add: f)
  show "k < length specs \<Longrightarrow> slice_name (slice_row ds defaults (specs ! k)) = slice_names es_cluster specs ! k"
    by (simp add: slice_row_name nk)
qed

lemma energy_metric:
  assumes "spec \<in> set energy_slices"
  shows "distinct (map fst (snd (snd spec)))"
    and "map_of (snd (snd spec)) ''metric'' = Some (JStr ''sum__value'')"
  using assms by (auto simp: energy_slices_def)

lemma slice_row_metric:
  assumes "distinct (map fst defaults)" and "distinct (map fst (snd (snd spec)))"
      and "map_of (snd (snd spec)) k = Some v"
  shows "map_of (params (slice_row ds defaults spec)) k = Some v"
  using slice_params_override [OF assms(1,2,3)] by (cases spec) (simp add: slice_row_def)

end
